theory Spec2Isabelle
  imports Main
begin

section \<open>Data model\<close>

text \<open>
  The library management API keeps three PostgreSQL tables (books, borrowers,
  borrowings) and reaches them through repositories, services and DTOs written in
  JavaScript. The tables are modelled as lists of rows, an SQL statement as the list
  operation it denotes, a JavaScript \<open>Error\<close> as a value, and a transaction as a
  function that returns the new database on COMMIT and the old tables on ROLLBACK.

  A value of an SQL \<open>DATE\<close> column (and a \<open>'YYYY-MM-DD'\<close> string) is the number of
  days since 1970-01-01; a JavaScript time (\<open>Date.now()\<close>, \<open>new Date()\<close>) is the
  number of milliseconds since 1970-01-01T00:00Z. A function that reads the clock
  takes the reading as a parameter: \<open>fromCheckoutRequest\<close>, which reads it in two
  statements, takes two, and a checkout takes a record of its readings. The readings
  inside the one object that \<open>toDetailedBorrowingResponse\<close> builds are one parameter,
  a return, whose response does not depend on the clock, takes one reading, and
  \<open>CURRENT_DATE\<close> in a query is the day of the reading with which its rows are
  turned into responses. The server and the database run in UTC.

  The columns \<open>shelf_location\<close>, \<open>registered_date\<close>, \<open>is_returned\<close>,
  \<open>created_at\<close> and \<open>updated_at\<close> play no part in circulation and are left out.
\<close>

type_synonym date = int
type_synonym timestamp = int

definition ms_per_day :: int where
  "ms_per_day = 1000 * 60 * 60 * 24"

text \<open>\<open>new Date().toISOString().split('T')[0]\<close>: the UTC calendar day of a time.\<close>

definition iso_date :: "timestamp \<Rightarrow> date" where
  "iso_date t = t div ms_per_day"

text \<open>\<open>new Date(d)\<close> for a date \<open>d\<close>: midnight UTC of that day.\<close>

definition new_Date :: "date \<Rightarrow> timestamp" where
  "new_Date d = d * ms_per_day"

record book =
  b_id :: int
  b_title :: string
  b_author :: string
  b_isbn :: string
  b_available_quantity :: int
  b_total_quantity :: int

record borrower =
  brw_id :: int
  brw_name :: string
  brw_email :: string

text \<open>
  A row of \<open>create_borrowings_table\<close>. The table has no column \<open>extension_count\<close>,
  \<open>extension_reason\<close> or \<open>return_notes\<close>: the migration declares none of them
  and no other migration adds one.
\<close>

record borrowing =
  br_id :: int
  br_book_id :: int
  br_borrower_id :: int
  br_checkout_date :: date
  br_due_date :: date
  br_return_date :: "date option"

text \<open>
  The row of the repository's detail query
  \<open>SELECT br.*, b.title, b.author, b.isbn, brw.name as borrower_name,
  brw.email as borrower_email FROM borrowings br JOIN books b ... JOIN borrowers brw ...\<close>.
\<close>

record borrowing_details = borrowing +
  title :: string
  author :: string
  isbn :: string
  borrower_name :: string
  borrower_email :: string

record database =
  books :: "book list"
  borrowers :: "borrower list"
  borrowings :: "borrowing list"
  books_id_seq :: int
  borrowings_id_seq :: int

text \<open>
  A thrown \<open>new Error(message)\<close>, a statement rejected by PostgreSQL (the name of
  the error condition), or the \<open>TypeError\<close> of reading a property of \<open>undefined\<close>.
\<close>

datatype error = Error string | DbError string | TypeError

text \<open>\<open>result.rows[0] || null\<close>\<close>

definition first_row :: "'a list \<Rightarrow> 'a option" where
  "first_row rows = (case rows of [] \<Rightarrow> None | r # _ \<Rightarrow> Some r)"

section \<open>Schema constraints (migrations)\<close>

text \<open>
  \<open>books_quantity_check\<close>, \<open>books_total_quantity_check\<close> and
  \<open>books_available_lte_total\<close> of \<open>create_books_table\<close>.
\<close>

definition books_checks :: "book \<Rightarrow> bool" where
  "books_checks b \<longleftrightarrow>
     b_available_quantity b \<ge> 0 \<and> b_total_quantity b \<ge> 0 \<and>
     b_available_quantity b \<le> b_total_quantity b"

text \<open>
  \<open>borrowings_due_date_check\<close> and \<open>borrowings_return_date_check\<close> of
  \<open>create_borrowings_table\<close>.
\<close>

definition borrowings_checks :: "borrowing \<Rightarrow> bool" where
  "borrowings_checks r \<longleftrightarrow>
     br_due_date r \<ge> br_checkout_date r \<and>
     (case br_return_date r of None \<Rightarrow> True | Some d \<Rightarrow> d \<ge> br_checkout_date r)"

text \<open>
  \<open>UPDATE books SET ... WHERE ...\<close>: every row that the condition selects is
  replaced; the statement is rejected when a new row breaks a CHECK constraint.
\<close>

definition update_books :: "(book \<Rightarrow> bool) \<Rightarrow> (book \<Rightarrow> book) \<Rightarrow> book list \<Rightarrow> error + book list" where
  "update_books cond f bs =
     (if \<not> list_all books_checks (map f (filter cond bs)) then Inl (DbError ''check_violation'')
      else Inr (map (\<lambda>b. if cond b then f b else b) bs))"

text \<open>
  \<open>UPDATE borrowings SET ... WHERE id = $1\<close>, with the CHECK constraints of the table.
\<close>

definition update_borrowings :: "int \<Rightarrow> (borrowing \<Rightarrow> borrowing) \<Rightarrow> borrowing list \<Rightarrow> error + borrowing list" where
  "update_borrowings i f rs =
     (if \<not> list_all borrowings_checks (map f (filter (\<lambda>r. br_id r = i) rs))
      then Inl (DbError ''check_violation'')
      else Inr (map (\<lambda>r. if br_id r = i then f r else r) rs))"

section \<open>BookRepository\<close>

text \<open>The sanitized data of a create request (\<open>BookDTO.fromCreateRequest\<close>).\<close>

record book_data =
  bd_title :: string
  bd_author :: string
  bd_isbn :: string
  bd_available_quantity :: int
  bd_total_quantity :: int

text \<open>JavaScript \<open>a || b\<close> on numbers: \<open>0\<close> is falsy.\<close>

definition or_num :: "int \<Rightarrow> int \<Rightarrow> int" where
  "or_num a b = (if a \<noteq> 0 then a else b)"

text \<open>
  \<open>INSERT INTO books ... RETURNING *\<close>. The id is the next value of the SERIAL
  sequence, which stays advanced when the statement fails.
\<close>

definition BookRepository_create :: "database \<Rightarrow> book_data \<Rightarrow> (error + book) \<times> database" where
  "BookRepository_create db d =
     (let row = \<lparr> b_id = books_id_seq db, b_title = bd_title d, b_author = bd_author d,
                  b_isbn = bd_isbn d,
                  b_available_quantity = or_num (bd_available_quantity d) 0,
                  b_total_quantity = or_num (bd_total_quantity d) (or_num (bd_available_quantity d) 0) \<rparr>;
          db1 = db \<lparr> books_id_seq := books_id_seq db + 1 \<rparr>
      in if \<not> books_checks row then (Inl (DbError ''check_violation''), db1)
         else if b_id row \<in> set (map b_id (books db)) \<or> b_isbn row \<in> set (map b_isbn (books db))
         then (Inl (DbError ''unique_violation''), db1)
         else (Inr row, db1 \<lparr> books := books db @ [row] \<rparr>))"

definition BookRepository_findById :: "database \<Rightarrow> int \<Rightarrow> book option" where
  "BookRepository_findById db i = first_row (filter (\<lambda>b. b_id b = i) (books db))"

definition BookRepository_findByISBN :: "database \<Rightarrow> string \<Rightarrow> book option" where
  "BookRepository_findByISBN db s = first_row (filter (\<lambda>b. b_isbn b = s) (books db))"

text \<open>
  The update data of \<open>BookDTO.fromUpdateRequest\<close>: a key that is \<open>undefined\<close> is
  \<open>None\<close>.
\<close>

record book_update =
  u_title :: "string option"
  u_author :: "string option"
  u_isbn :: "string option"
  u_available_quantity :: "int option"
  u_total_quantity :: "int option"

text \<open>\<open>{ ...existingBook, ...sanitizedData }\<close>, also the \<open>SET\<close> list of the update.\<close>

definition merge_book :: "book \<Rightarrow> book_update \<Rightarrow> book" where
  "merge_book b u =
     b \<lparr> b_title := (case u_title u of None \<Rightarrow> b_title b | Some v \<Rightarrow> v),
         b_author := (case u_author u of None \<Rightarrow> b_author b | Some v \<Rightarrow> v),
         b_isbn := (case u_isbn u of None \<Rightarrow> b_isbn b | Some v \<Rightarrow> v),
         b_available_quantity := (case u_available_quantity u of None \<Rightarrow> b_available_quantity b | Some v \<Rightarrow> v),
         b_total_quantity := (case u_total_quantity u of None \<Rightarrow> b_total_quantity b | Some v \<Rightarrow> v) \<rparr>"

definition no_fields :: "book_update \<Rightarrow> bool" where
  "no_fields u \<longleftrightarrow>
     u_title u = None \<and> u_author u = None \<and> u_isbn u = None \<and>
     u_available_quantity u = None \<and> u_total_quantity u = None"

text \<open>
  \<open>update(id, updateData)\<close>: no statement is sent when no key is defined. A new
  isbn must keep \<open>isbn ... UNIQUE\<close>.
\<close>

definition BookRepository_update :: "database \<Rightarrow> int \<Rightarrow> book_update \<Rightarrow> (error + book option) \<times> database" where
  "BookRepository_update db i u =
     (if no_fields u then (Inr None, db)
      else (case update_books (\<lambda>b. b_id b = i) (\<lambda>b. merge_book b u) (books db) of
              Inl e \<Rightarrow> (Inl e, db)
            | Inr bs \<Rightarrow>
                if u_isbn u \<noteq> None \<and> \<not> distinct (map b_isbn bs)
                then (Inl (DbError ''unique_violation''), db)
                else (Inr (first_row (filter (\<lambda>b. b_id b = i) bs)), db \<lparr> books := bs \<rparr>)))"

text \<open>
  \<open>DELETE FROM books WHERE id = $1\<close>; the borrowings that reference the book go with
  it (\<open>ON DELETE CASCADE\<close>). The result is \<open>rowCount > 0\<close>.
\<close>

definition BookRepository_delete :: "database \<Rightarrow> int \<Rightarrow> bool \<times> database" where
  "BookRepository_delete db i =
     (filter (\<lambda>b. b_id b = i) (books db) \<noteq> [],
      db \<lparr> books := filter (\<lambda>b. b_id b \<noteq> i) (books db),
           borrowings := filter (\<lambda>r. br_book_id r \<noteq> i) (borrowings db) \<rparr>)"

text \<open>
  \<open>UPDATE books SET available_quantity = available_quantity + $2
  WHERE id = $1 AND available_quantity + $2 >= 0 RETURNING *\<close>
\<close>

definition BookRepository_updateAvailability :: "database \<Rightarrow> int \<Rightarrow> int \<Rightarrow> (error + book option) \<times> database" where
  "BookRepository_updateAvailability db bookId quantityChange =
     (case update_books (\<lambda>b. b_id b = bookId \<and> b_available_quantity b + quantityChange \<ge> 0)
             (\<lambda>b. b \<lparr> b_available_quantity := b_available_quantity b + quantityChange \<rparr>) (books db) of
        Inl e \<Rightarrow> (Inl e, db)
      | Inr bs \<Rightarrow>
          (Inr (first_row (map (\<lambda>b. b \<lparr> b_available_quantity := b_available_quantity b + quantityChange \<rparr>)
                  (filter (\<lambda>b. b_id b = bookId \<and> b_available_quantity b + quantityChange \<ge> 0) (books db)))),
           db \<lparr> books := bs \<rparr>))"

text \<open>\<open>isbnExists(isbn, excludeId)\<close>; \<open>if (excludeId)\<close> is false for the id 0.\<close>

definition BookRepository_isbnExists :: "database \<Rightarrow> string \<Rightarrow> int \<Rightarrow> bool" where
  "BookRepository_isbnExists db s excludeId =
     (filter (\<lambda>b. b_isbn b = s \<and> (excludeId = 0 \<or> b_id b \<noteq> excludeId)) (books db) \<noteq> [])"

section \<open>BorrowerRepository\<close>

definition BorrowerRepository_findById :: "database \<Rightarrow> int \<Rightarrow> borrower option" where
  "BorrowerRepository_findById db i = first_row (filter (\<lambda>w. brw_id w = i) (borrowers db))"

text \<open>
  \<open>getCurrentBooks\<close>: the active borrowings of a borrower, joined with their books
  (the service only looks at the number of rows).
\<close>

definition BorrowerRepository_getCurrentBooks :: "database \<Rightarrow> int \<Rightarrow> (book \<times> borrowing) list" where
  "BorrowerRepository_getCurrentBooks db borrowerId =
     concat (map (\<lambda>r. map (\<lambda>b. (b, r)) (filter (\<lambda>b. b_id b = br_book_id r) (books db)))
       (filter (\<lambda>r. br_borrower_id r = borrowerId \<and> br_return_date r = None) (borrowings db)))"

definition BorrowerRepository_delete :: "database \<Rightarrow> int \<Rightarrow> bool \<times> database" where
  "BorrowerRepository_delete db i =
     (filter (\<lambda>w. brw_id w = i) (borrowers db) \<noteq> [],
      db \<lparr> borrowers := filter (\<lambda>w. brw_id w \<noteq> i) (borrowers db),
           borrowings := filter (\<lambda>r. br_borrower_id r \<noteq> i) (borrowings db) \<rparr>)"

section \<open>BorrowingRepository\<close>

text \<open>The data that \<open>BorrowingDTO.fromCheckoutRequest\<close> hands to \<open>create\<close>.\<close>

record checkout_data =
  cd_book_id :: int
  cd_borrower_id :: int
  cd_due_date :: date
  cd_checkout_date :: date

definition join_details :: "borrowing \<Rightarrow> book \<Rightarrow> borrower \<Rightarrow> borrowing_details" where
  "join_details r b w =
     \<lparr> br_id = br_id r, br_book_id = br_book_id r, br_borrower_id = br_borrower_id r,
       br_checkout_date = br_checkout_date r, br_due_date = br_due_date r,
       br_return_date = br_return_date r,
       title = b_title b, author = b_author b, isbn = b_isbn b,
       borrower_name = brw_name w, borrower_email = brw_email w \<rparr>"

text \<open>
  The detail query \<open>SELECT br.*, b.title, b.author, b.isbn, brw.name as borrower_name,
  brw.email as borrower_email FROM borrowings br JOIN books b ON br.book_id = b.id
  JOIN borrowers brw ON br.borrower_id = brw.id WHERE ...\<close>.
\<close>

definition details_where :: "database \<Rightarrow> (borrowing \<Rightarrow> bool) \<Rightarrow> borrowing_details list" where
  "details_where db cond =
     concat (map (\<lambda>r.
       concat (map (\<lambda>b.
         map (\<lambda>w. join_details r b w) (filter (\<lambda>w. brw_id w = br_borrower_id r) (borrowers db)))
         (filter (\<lambda>b. b_id b = br_book_id r) (books db))))
       (filter cond (borrowings db)))"

definition details_by_id :: "database \<Rightarrow> int \<Rightarrow> borrowing_details list" where
  "details_by_id db i = details_where db (\<lambda>r. br_id r = i)"

definition BorrowingRepository_findById :: "database \<Rightarrow> int \<Rightarrow> borrowing_details option" where
  "BorrowingRepository_findById db i = first_row (details_by_id db i)"

text \<open>
  \<open>INSERT INTO borrowings (book_id, borrower_id, checkout_date, due_date) ...
  RETURNING *\<close>: the id comes from the SERIAL sequence (advanced even when the
  statement fails), \<open>return_date\<close> is NULL, and the row must satisfy the primary key
  and the CHECK constraints.
\<close>

definition inserted_row :: "database \<Rightarrow> checkout_data \<Rightarrow> borrowing" where
  "inserted_row db d =
     \<lparr> br_id = borrowings_id_seq db, br_book_id = cd_book_id d,
       br_borrower_id = cd_borrower_id d, br_checkout_date = cd_checkout_date d,
       br_due_date = cd_due_date d, br_return_date = None \<rparr>"

definition insert_borrowing :: "database \<Rightarrow> checkout_data \<Rightarrow> (error + borrowing) \<times> database" where
  "insert_borrowing db d =
     (let row = inserted_row db d;
          db1 = db \<lparr> borrowings_id_seq := borrowings_id_seq db + 1 \<rparr>
      in if \<not> borrowings_checks row then (Inl (DbError ''check_violation''), db1)
         else if br_id row \<in> set (map br_id (borrowings db)) then (Inl (DbError ''unique_violation''), db1)
         else (Inr row, db1 \<lparr> borrowings := borrowings db @ [row] \<rparr>))"

text \<open>
  \<open>create\<close>: one transaction. An error inside it reaches the \<open>catch\<close>, which rolls
  the tables back and throws the error again.
\<close>

definition BorrowingRepository_create :: "database \<Rightarrow> checkout_data \<Rightarrow> (error + borrowing_details option) \<times> database" where
  "BorrowingRepository_create db d =
     (case first_row (filter (\<lambda>b. b_id b = cd_book_id d) (books db)) of
        None \<Rightarrow> (Inl (Error ''Book is not available for checkout''), db)
      | Some bookCheck \<Rightarrow>
          if b_available_quantity bookCheck \<le> 0
          then (Inl (Error ''Book is not available for checkout''), db)
          else (case first_row (filter (\<lambda>w. brw_id w = cd_borrower_id d) (borrowers db)) of
                  None \<Rightarrow> (Inl (Error ''Borrower not found''), db)
                | Some borrowerCheck \<Rightarrow>
                    (case insert_borrowing db d of
                       (Inl e, db1) \<Rightarrow> (Inl e, db \<lparr> borrowings_id_seq := borrowings_id_seq db1 \<rparr>)
                     | (Inr row, db1) \<Rightarrow>
                         (case update_books (\<lambda>b. b_id b = cd_book_id d)
                                 (\<lambda>b. b \<lparr> b_available_quantity := b_available_quantity b - 1 \<rparr>) (books db1) of
                            Inl e \<Rightarrow> (Inl e, db \<lparr> borrowings_id_seq := borrowings_id_seq db1 \<rparr>)
                          | Inr bs \<Rightarrow>
                              (let db2 = db1 \<lparr> books := bs \<rparr>
                               in (Inr (first_row (details_by_id db2 (br_id row))), db2))))))"

text \<open>\<open>returnBook(borrowingId, returnDate)\<close>: one transaction.\<close>

definition BorrowingRepository_returnBook :: "database \<Rightarrow> int \<Rightarrow> date \<Rightarrow> (error + borrowing_details option) \<times> database" where
  "BorrowingRepository_returnBook db borrowingId returnDate =
     (case first_row (filter (\<lambda>r. br_id r = borrowingId \<and> br_return_date r = None) (borrowings db)) of
        None \<Rightarrow> (Inl (Error ''Active borrowing not found''), db)
      | Some borrowing \<Rightarrow>
          (case update_borrowings borrowingId (\<lambda>r. r \<lparr> br_return_date := Some returnDate \<rparr>) (borrowings db) of
             Inl e \<Rightarrow> (Inl e, db)
           | Inr rs \<Rightarrow>
               (case update_books (\<lambda>b. b_id b = br_book_id borrowing)
                       (\<lambda>b. b \<lparr> b_available_quantity := b_available_quantity b + 1 \<rparr>) (books db) of
                  Inl e \<Rightarrow> (Inl e, db)
                | Inr bs \<Rightarrow>
                    (let db2 = db \<lparr> borrowings := rs, books := bs \<rparr>
                     in (Inr (first_row (details_by_id db2 borrowingId)), db2)))))"

text \<open>
  \<open>findOverdue\<close>: the active borrowings with \<open>due_date < CURRENT_DATE\<close>, each with
  \<open>CURRENT_DATE - br.due_date as days_overdue\<close>, ordered by due date.
\<close>

definition BorrowingRepository_findOverdue :: "database \<Rightarrow> date \<Rightarrow> (borrowing_details \<times> int) list" where
  "BorrowingRepository_findOverdue db current_date =
     map (\<lambda>r. (r, current_date - br_due_date r))
       (sort_key br_due_date
          (details_where db (\<lambda>r. br_return_date r = None \<and> br_due_date r < current_date)))"

text \<open>
  The two \<open>CASE\<close> expressions in the text of \<open>findHistoryByBorrowerId\<close>,
  \<open>days_overdue\<close> and \<open>status\<close>. (The query also selects the three columns that
  the table does not have; its condition for overdue,
  \<open>br.return_date IS NULL AND br.due_date < CURRENT_DATE\<close>, is also the one of
  \<open>findOverdue\<close>, \<open>findAll\<close> and \<open>getStatistics\<close>.)
\<close>

definition sql_days_overdue :: "date \<Rightarrow> borrowing \<Rightarrow> int" where
  "sql_days_overdue current_date r =
     (if br_return_date r = None \<and> br_due_date r < current_date
      then current_date - br_due_date r else 0)"

definition sql_status :: "date \<Rightarrow> borrowing \<Rightarrow> string" where
  "sql_status current_date r =
     (if br_return_date r \<noteq> None then ''returned''
      else if br_return_date r = None \<and> br_due_date r < current_date then ''overdue''
      else ''active'')"

definition BorrowingRepository_hasActiveBorrowing :: "database \<Rightarrow> int \<Rightarrow> int \<Rightarrow> bool" where
  "BorrowingRepository_hasActiveBorrowing db borrowerId bookId =
     (filter (\<lambda>r. br_borrower_id r = borrowerId \<and> br_book_id r = bookId \<and> br_return_date r = None)
        (borrowings db) \<noteq> [])"

definition BorrowingRepository_hasActiveBookBorrowings :: "database \<Rightarrow> int \<Rightarrow> bool" where
  "BorrowingRepository_hasActiveBookBorrowings db bookId =
     (filter (\<lambda>r. br_book_id r = bookId \<and> br_return_date r = None) (borrowings db) \<noteq> [])"

text \<open>
  \<open>extendDueDate(borrowingId, newDueDate, extensionReason)\<close>: one transaction.
  After the active row is selected it sends
  \<open>UPDATE borrowings SET due_date = $2, extension_count = COALESCE(extension_count, 0) + 1,
  extension_reason = $3, updated_at = CURRENT_TIMESTAMP WHERE id = $1 RETURNING *\<close>.
  The table has no column \<open>extension_count\<close> or \<open>extension_reason\<close>, so PostgreSQL
  rejects the statement (\<open>undefined_column\<close>), the \<open>catch\<close> rolls back and throws
  the error again; the \<open>COMMIT\<close> and the detail query after it are never reached.
\<close>

definition BorrowingRepository_extendDueDate :: "database \<Rightarrow> int \<Rightarrow> date \<Rightarrow> string option \<Rightarrow> (error + borrowing_details option) \<times> database" where
  "BorrowingRepository_extendDueDate db borrowingId newDueDate extensionReason =
     (case first_row (filter (\<lambda>r. br_id r = borrowingId \<and> br_return_date r = None) (borrowings db)) of
        None \<Rightarrow> (Inl (Error ''Active borrowing not found''), db)
      | Some currentBorrowing \<Rightarrow> (Inl (DbError ''undefined_column''), db))"

section \<open>BorrowingDTO\<close>

record checkout_request =
  book_id :: int
  borrower_id :: int
  due_date :: "date option"

text \<open>
  \<open>fromCheckoutRequest(requestData)\<close> reads the clock twice: \<open>Date.now()\<close> for
  the default due date, when the request has none, and then \<open>new Date()\<close> for the
  checkout date.
\<close>

definition fromCheckoutRequest :: "timestamp \<Rightarrow> timestamp \<Rightarrow> checkout_request \<Rightarrow> checkout_data" where
  "fromCheckoutRequest date_now new_date requestData =
     \<lparr> cd_book_id = book_id requestData,
       cd_borrower_id = borrower_id requestData,
       cd_due_date = (case due_date requestData of
                        Some d \<Rightarrow> d
                      | None \<Rightarrow> iso_date (date_now + 14 * 24 * 60 * 60 * 1000)),
       cd_checkout_date = iso_date new_date \<rparr>"

text \<open>\<open>fromReturnRequest(requestData)\<close> does not read its argument.\<close>

definition fromReturnRequest :: "timestamp \<Rightarrow> date" where
  "fromReturnRequest now = iso_date now"

text \<open>
  \<open>validateCheckoutData\<close>: \<open>None\<close> is \<open>{ isValid: true }\<close>, \<open>Some m\<close> is
  \<open>{ isValid: false, message: m }\<close>.
\<close>

definition validateCheckoutData :: "timestamp \<Rightarrow> checkout_data \<Rightarrow> string option" where
  "validateCheckoutData now checkoutData =
     (if cd_book_id checkoutData = 0 then Some ''Valid book ID is required''
      else if cd_borrower_id checkoutData = 0 then Some ''Valid borrower ID is required''
      else if new_Date (cd_due_date checkoutData) \<le> now then Some ''Due date must be in the future''
      else None)"

record book_summary =
  bs_title :: string
  bs_author :: string
  bs_isbn :: string

record borrower_summary =
  ws_name :: string
  ws_email :: string

record borrowing_response =
  resp_id :: int
  resp_book_id :: int
  resp_borrower_id :: int
  resp_checkout_date :: date
  resp_due_date :: date
  resp_return_date :: "date option"
  resp_book :: "book_summary option"
  resp_borrower :: "borrower_summary option"
  is_overdue :: bool
  days_overdue :: int

text \<open>\<open>Math.ceil(a / b)\<close> for integers \<open>a\<close> and \<open>b > 0\<close>.\<close>

definition Math_ceil_div :: "int \<Rightarrow> int \<Rightarrow> int" where
  "Math_ceil_div a b = - ((- a) div b)"

text \<open>
  \<open>toDetailedBorrowingResponse(borrowingData)\<close>, with \<open>toPublicBorrowing\<close> inlined.
  The argument is a detail row with the \<open>book\<close> and \<open>borrower\<close> objects that the
  service adds to it.
\<close>

definition toDetailedBorrowingResponse :: "timestamp \<Rightarrow> borrowing_details \<Rightarrow> book_summary option \<Rightarrow> borrower_summary option \<Rightarrow> borrowing_response" where
  "toDetailedBorrowingResponse now borrowingData bk bw =
     \<lparr> resp_id = br_id borrowingData,
       resp_book_id = br_book_id borrowingData,
       resp_borrower_id = br_borrower_id borrowingData,
       resp_checkout_date = br_checkout_date borrowingData,
       resp_due_date = br_due_date borrowingData,
       resp_return_date = br_return_date borrowingData,
       resp_book = bk,
       resp_borrower = bw,
       is_overdue = (br_return_date borrowingData = None \<and> new_Date (br_due_date borrowingData) < now),
       days_overdue = (if br_return_date borrowingData = None
                       then max 0 (Math_ceil_div (now - new_Date (br_due_date borrowingData)) (1000 * 60 * 60 * 24))
                       else 0) \<rparr>"

text \<open>
  What the methods of the borrowing service build from a detail row:
  \<open>toDetailedBorrowingResponse({ ...borrowing, book: { title: borrowing.title, ... },
  borrower: { name: borrowing.borrower_name, ... } })\<close>.
\<close>

definition enriched :: "timestamp \<Rightarrow> borrowing_details \<Rightarrow> borrowing_response" where
  "enriched now borrowing =
     toDetailedBorrowingResponse now borrowing
       (Some \<lparr> bs_title = title borrowing, bs_author = author borrowing, bs_isbn = isbn borrowing \<rparr>)
       (Some \<lparr> ws_name = borrower_name borrowing, ws_email = borrower_email borrowing \<rparr>)"

text \<open>
  The same for the row that a repository transaction returns: when the detail query
  found no row, reading \<open>borrowing.title\<close> throws a \<open>TypeError\<close>.
\<close>

definition detailed :: "timestamp \<Rightarrow> borrowing_details option \<Rightarrow> error + borrowing_response" where
  "detailed now row =
     (case row of
        None \<Rightarrow> Inl TypeError
      | Some borrowing \<Rightarrow> Inr (enriched now borrowing))"

section \<open>BorrowingService\<close>

text \<open>
  The readings of the clock during one \<open>checkoutBook\<close>, in the order in which they
  are taken: the two of \<open>fromCheckoutRequest\<close>, the one of
  \<open>validateCheckoutData\<close>, and the one of \<open>toDetailedBorrowingResponse\<close>.
\<close>

record checkout_clock =
  default_due_read :: timestamp
  checkout_date_read :: timestamp
  validation_read :: timestamp
  response_read :: timestamp

abbreviation sanitized_checkout :: "checkout_clock \<Rightarrow> checkout_request \<Rightarrow> checkout_data" where
  "sanitized_checkout clock requestData \<equiv>
     fromCheckoutRequest (default_due_read clock) (checkout_date_read clock) requestData"

definition BorrowingService_checkoutBook :: "checkout_clock \<Rightarrow> database \<Rightarrow> checkout_request \<Rightarrow> (error + borrowing_response) \<times> database" where
  "BorrowingService_checkoutBook clock db checkoutData =
     (let sanitizedData = fromCheckoutRequest (default_due_read clock) (checkout_date_read clock) checkoutData in
      case validateCheckoutData (validation_read clock) sanitizedData of
        Some message \<Rightarrow> (Inl (Error message), db)
      | None \<Rightarrow>
          (case BookRepository_findById db (cd_book_id sanitizedData) of
             None \<Rightarrow> (Inl (Error ''Book not found''), db)
           | Some book \<Rightarrow>
               if b_available_quantity book \<le> 0
               then (Inl (Error ''Book is not available for checkout''), db)
               else (case BorrowerRepository_findById db (cd_borrower_id sanitizedData) of
                       None \<Rightarrow> (Inl (Error ''Borrower not found''), db)
                     | Some borrower \<Rightarrow>
                         if BorrowingRepository_hasActiveBorrowing db
                              (cd_borrower_id sanitizedData) (cd_book_id sanitizedData)
                         then (Inl (Error ''Borrower already has this book checked out''), db)
                         else (case BorrowingRepository_create db sanitizedData of
                                 (Inl e, db') \<Rightarrow> (Inl e, db')
                               | (Inr borrowing, db') \<Rightarrow>
                                   (detailed (response_read clock) borrowing, db')))))"

definition BorrowingService_returnBook :: "timestamp \<Rightarrow> database \<Rightarrow> int \<Rightarrow> (error + borrowing_response) \<times> database" where
  "BorrowingService_returnBook now db borrowingId =
     (let returnData = fromReturnRequest now in
      case BorrowingRepository_findById db borrowingId of
        None \<Rightarrow> (Inl (Error ''Borrowing not found''), db)
      | Some borrowing \<Rightarrow>
          if br_return_date borrowing \<noteq> None
          then (Inl (Error ''Book has already been returned''), db)
          else (case BorrowingRepository_returnBook db borrowingId returnData of
                  (Inl e, db') \<Rightarrow> (Inl e, db')
                | (Inr updatedBorrowing, db') \<Rightarrow> (detailed now updatedBorrowing, db')))"

text \<open>
  The body of a return request as the validation layer accepts it
  (\<open>borrowing_id\<close>, optional \<open>return_date\<close>), and the controller's call
  \<open>const { borrowing_id } = req.body; this.borrowingService.returnBook(borrowing_id)\<close>.
\<close>

record return_request =
  borrowing_id :: int
  return_date :: "date option"

definition BorrowingController_returnBook :: "timestamp \<Rightarrow> database \<Rightarrow> return_request \<Rightarrow> (error + borrowing_response) \<times> database" where
  "BorrowingController_returnBook now db body = BorrowingService_returnBook now db (borrowing_id body)"

text \<open>
  \<open>extendDueDate(borrowingId, newDueDate, extensionReason)\<close>: \<open>newDueDate\<close> is
  \<open>None\<close> when \<open>new Date(newDueDate)\<close> is an invalid date.
\<close>

definition BorrowingService_extendDueDate :: "timestamp \<Rightarrow> database \<Rightarrow> int \<Rightarrow> date option \<Rightarrow> string option \<Rightarrow> (error + borrowing_response) \<times> database" where
  "BorrowingService_extendDueDate now db borrowingId newDueDate extensionReason =
     (case newDueDate of
        None \<Rightarrow> (Inl (Error ''Invalid due date format''), db)
      | Some newDate \<Rightarrow>
          if new_Date newDate \<le> now
          then (Inl (Error ''New due date must be in the future''), db)
          else (case BorrowingRepository_extendDueDate db borrowingId newDate extensionReason of
                  (Inl e, db') \<Rightarrow> (Inl e, db')
                | (Inr updatedBorrowing, db') \<Rightarrow> (detailed now updatedBorrowing, db')))"

text \<open>
  \<open>getOverdueBorrowings\<close>: the rows of \<open>findOverdue\<close> through
  \<open>toOverdueBorrowingsResponse\<close>, which maps \<open>toDetailedBorrowingResponse\<close> over them
  (the column \<open>days_overdue\<close> of the query is not copied by \<open>toPublicBorrowing\<close>).
\<close>

definition BorrowingService_getOverdueBorrowings :: "timestamp \<Rightarrow> database \<Rightarrow> borrowing_response list" where
  "BorrowingService_getOverdueBorrowings now db =
     map (\<lambda>(borrowing, sql_days). enriched now borrowing)
       (BorrowingRepository_findOverdue db (iso_date now))"

definition BorrowingService_getBorrowingById :: "timestamp \<Rightarrow> database \<Rightarrow> int \<Rightarrow> error + borrowing_response" where
  "BorrowingService_getBorrowingById now db borrowingId =
     (case BorrowingRepository_findById db borrowingId of
        None \<Rightarrow> Inl (Error ''Borrowing not found'')
      | Some borrowing \<Rightarrow> Inr (enriched now borrowing))"

section \<open>BookDTO and BookService\<close>

text \<open>
  \<open>String.prototype.trim\<close> on the white space of ASCII (tab, line feed, vertical
  tab, form feed, carriage return, space).
\<close>

definition is_space :: "char \<Rightarrow> bool" where
  "is_space c \<longleftrightarrow> c \<in> set [CHR 0x09, CHR 0x0A, CHR 0x0B, CHR 0x0C, CHR 0x0D, CHR 0x20]"

definition trim :: "string \<Rightarrow> string" where
  "trim s = rev (dropWhile is_space (rev (dropWhile is_space s)))"

text \<open>A create request; a quantity that is \<open>undefined\<close> is \<open>None\<close>.\<close>

record create_request =
  cr_title :: string
  cr_author :: string
  cr_isbn :: string
  cr_available_quantity :: "int option"
  cr_total_quantity :: "int option"

text \<open>JavaScript \<open>a || b\<close> where \<open>a\<close> may be \<open>undefined\<close>.\<close>

definition or_undef :: "int option \<Rightarrow> int \<Rightarrow> int" where
  "or_undef a b = (case a of None \<Rightarrow> b | Some v \<Rightarrow> or_num v b)"

definition fromCreateRequest :: "create_request \<Rightarrow> book_data" where
  "fromCreateRequest requestData =
     (let finalTotalQuantity =
            or_undef (cr_total_quantity requestData) (or_undef (cr_available_quantity requestData) 0);
          finalAvailableQuantity = or_undef (cr_available_quantity requestData) 0
      in \<lparr> bd_title = trim (cr_title requestData),
           bd_author = trim (cr_author requestData),
           bd_isbn = trim (cr_isbn requestData),
           bd_available_quantity = finalAvailableQuantity,
           bd_total_quantity = finalTotalQuantity \<rparr>)"

definition fromUpdateRequest :: "book_update \<Rightarrow> book_update" where
  "fromUpdateRequest requestData =
     \<lparr> u_title = map_option trim (u_title requestData),
       u_author = map_option trim (u_author requestData),
       u_isbn = map_option trim (u_isbn requestData),
       u_available_quantity = u_available_quantity requestData,
       u_total_quantity = u_total_quantity requestData \<rparr>"

text \<open>
  \<open>validateQuantities({ available_quantity, total_quantity })\<close>: \<open>None\<close> is
  \<open>{ isValid: true }\<close>.
\<close>

definition validateQuantities :: "int \<Rightarrow> int \<Rightarrow> string option" where
  "validateQuantities available_quantity total_quantity =
     (if available_quantity < 0 then Some ''Available quantity cannot be negative''
      else if total_quantity < 0 then Some ''Total quantity cannot be negative''
      else if available_quantity > total_quantity
      then Some ''Available quantity cannot exceed total quantity''
      else None)"

definition BookService_createBook :: "database \<Rightarrow> create_request \<Rightarrow> (error + book) \<times> database" where
  "BookService_createBook db bookData =
     (let sanitizedData = fromCreateRequest bookData in
      case validateQuantities (bd_available_quantity sanitizedData) (bd_total_quantity sanitizedData) of
        Some message \<Rightarrow> (Inl (Error message), db)
      | None \<Rightarrow>
          (case BookRepository_findByISBN db (bd_isbn sanitizedData) of
             Some existingBook \<Rightarrow> (Inl (Error ''Book with this ISBN already exists''), db)
           | None \<Rightarrow> BookRepository_create db sanitizedData))"

definition BookService_updateBook :: "database \<Rightarrow> int \<Rightarrow> book_update \<Rightarrow> (error + book option) \<times> database" where
  "BookService_updateBook db bookId updateData =
     (let sanitizedData = fromUpdateRequest updateData in
      case BookRepository_findById db bookId of
        None \<Rightarrow> (Inl (Error ''Book not found''), db)
      | Some existingBook \<Rightarrow>
          if (case u_isbn sanitizedData of
                None \<Rightarrow> False
              | Some s \<Rightarrow> s \<noteq> [] \<and> s \<noteq> b_isbn existingBook \<and> BookRepository_isbnExists db s bookId)
          then (Inl (Error ''Book with this ISBN already exists''), db)
          else (let finalData = merge_book existingBook sanitizedData in
                case validateQuantities (b_available_quantity finalData) (b_total_quantity finalData) of
                  Some message \<Rightarrow> (Inl (Error message), db)
                | None \<Rightarrow> BookRepository_update db bookId sanitizedData))"

definition BookService_deleteBook :: "database \<Rightarrow> int \<Rightarrow> (error + bool) \<times> database" where
  "BookService_deleteBook db bookId =
     (case BookRepository_findById db bookId of
        None \<Rightarrow> (Inl (Error ''Book not found''), db)
      | Some book \<Rightarrow>
          if BorrowingRepository_hasActiveBookBorrowings db bookId
          then (Inl (Error ''Cannot delete book with active borrowings''), db)
          else (case BookRepository_delete db bookId of
                  (deleted, db') \<Rightarrow>
                    if \<not> deleted then (Inl (Error ''Failed to delete book''), db')
                    else (Inr True, db')))"

definition BookService_updateBookAvailability :: "database \<Rightarrow> int \<Rightarrow> int \<Rightarrow> (error + book) \<times> database" where
  "BookService_updateBookAvailability db bookId quantityChange =
     (case BookRepository_updateAvailability db bookId quantityChange of
        (Inl e, db') \<Rightarrow> (Inl e, db')
      | (Inr None, db') \<Rightarrow>
          (Inl (Error ''Failed to update book availability or insufficient quantity''), db')
      | (Inr (Some updatedBook), db') \<Rightarrow> (Inr updatedBook, db'))"

section \<open>BorrowerService\<close>

definition BorrowerService_deleteBorrower :: "database \<Rightarrow> int \<Rightarrow> (error + bool) \<times> database" where
  "BorrowerService_deleteBorrower db borrowerId =
     (case BorrowerRepository_findById db borrowerId of
        None \<Rightarrow> (Inl (Error ''Borrower not found''), db)
      | Some borrower \<Rightarrow>
          if BorrowerRepository_getCurrentBooks db borrowerId \<noteq> []
          then (Inl (Error ''Cannot delete borrower with active borrowings''), db)
          else (case BorrowerRepository_delete db borrowerId of
                  (deleted, db') \<Rightarrow>
                    if \<not> deleted then (Inl (Error ''Failed to delete borrower''), db')
                    else (Inr True, db')))"

section \<open>Properties of a database state\<close>

text \<open>
  The primary keys (\<open>id SERIAL PRIMARY KEY\<close>) and the foreign keys
  (\<open>book_id ... REFERENCES books(id)\<close>, \<open>borrower_id ... REFERENCES borrowers(id)\<close>)
  of the migrations.
\<close>

definition primary_keys_ok :: "database \<Rightarrow> bool" where
  "primary_keys_ok db \<longleftrightarrow>
     distinct (map b_id (books db)) \<and> distinct (map brw_id (borrowers db)) \<and>
     distinct (map br_id (borrowings db))"

definition references_ok :: "database \<Rightarrow> bool" where
  "references_ok db \<longleftrightarrow>
     list_all (\<lambda>r. br_book_id r \<in> set (map b_id (books db)) \<and>
                   br_borrower_id r \<in> set (map brw_id (borrowers db))) (borrowings db)"

text \<open>
  The relationship invariant in the words of the spec: for every book,
  \<open>available_quantity\<close> equals \<open>total_quantity\<close> minus the count of borrowing rows
  that reference the book with \<open>return_date IS NULL\<close>; and the same equation for
  the book of one id.
\<close>

definition active_count :: "database \<Rightarrow> int \<Rightarrow> nat" where
  "active_count db bookId =
     length (filter (\<lambda>r. br_book_id r = bookId \<and> br_return_date r = None) (borrowings db))"

definition relationship_invariant :: "database \<Rightarrow> bool" where
  "relationship_invariant db \<longleftrightarrow>
     list_all (\<lambda>b. b_available_quantity b = b_total_quantity b - int (active_count db (b_id b)))
       (books db)"

definition book_relation :: "database \<Rightarrow> int \<Rightarrow> bool" where
  "book_relation db bookId \<longleftrightarrow>
     list_all (\<lambda>b. b_available_quantity b = b_total_quantity b - int (active_count db bookId))
       (filter (\<lambda>b. b_id b = bookId) (books db))"

text \<open>
  The two transactions that move copies. Each locks the rows it reads
  (\<open>SELECT ... FOR UPDATE\<close> between \<open>BEGIN\<close> and \<open>COMMIT\<close>), so concurrent requests
  amount to some sequence of these transactions; what the services check before
  them only reads.
\<close>

datatype circulation_tx = Tx_create checkout_data | Tx_returnBook int date

fun apply_tx :: "database \<Rightarrow> circulation_tx \<Rightarrow> database" where
  "apply_tx db (Tx_create d) = snd (BorrowingRepository_create db d)"
| "apply_tx db (Tx_returnBook borrowingId returnDate) =
     snd (BorrowingRepository_returnBook db borrowingId returnDate)"

text \<open>The operations of the services that write, and the state each one leaves.\<close>

datatype operation =
    Checkout checkout_clock checkout_request
  | Return timestamp int
  | ExtendDueDate timestamp int "date option" "string option"
  | CreateBook create_request
  | UpdateBook int book_update
  | UpdateBookAvailability int int
  | DeleteBook int
  | DeleteBorrower int

fun apply_operation :: "database \<Rightarrow> operation \<Rightarrow> database" where
  "apply_operation db (Checkout clock req) = snd (BorrowingService_checkoutBook clock db req)"
| "apply_operation db (Return now borrowingId) = snd (BorrowingService_returnBook now db borrowingId)"
| "apply_operation db (ExtendDueDate now borrowingId newDueDate reason) =
     snd (BorrowingService_extendDueDate now db borrowingId newDueDate reason)"
| "apply_operation db (CreateBook req) = snd (BookService_createBook db req)"
| "apply_operation db (UpdateBook bookId upd) = snd (BookService_updateBook db bookId upd)"
| "apply_operation db (UpdateBookAvailability bookId quantityChange) =
     snd (BookService_updateBookAvailability db bookId quantityChange)"
| "apply_operation db (DeleteBook bookId) = snd (BookService_deleteBook db bookId)"
| "apply_operation db (DeleteBorrower borrowerId) = snd (BorrowerService_deleteBorrower db borrowerId)"

text \<open>
  A borrowing id that is closed: the sequence has passed it, and every row that
  carries it has a return date.
\<close>

definition closed_id :: "int \<Rightarrow> database \<Rightarrow> bool" where
  "closed_id i db \<longleftrightarrow>
     i < borrowings_id_seq db \<and>
     list_all (\<lambda>r. br_return_date r \<noteq> None) (filter (\<lambda>r. br_id r = i) (borrowings db))"

section \<open>Example states\<close>

text \<open>
  Two books and two borrowers with the titles and names of the seed script, and no
  borrowing. The second book is catalogued with 3 of its 4 copies available:
  \<open>createBook\<close> accepts any \<open>available_quantity \<le> total_quantity\<close>, and
  \<open>updateBook\<close> edits both counters (the repository's tests set a book without
  loans to 3 of 5). Day 19732 is 2024-01-10, and \<open>noon\<close> is 12:00 UTC on that day.
  \<open>clock_at t\<close> is a checkout all of whose readings are \<open>t\<close>; \<open>midnight_clock\<close>
  is one that reads 2024-01-10T23:59:59.999Z for the default due date and
  2024-01-11T00:00:00.000Z from then on.
\<close>

definition gatsby :: book where
  "gatsby = \<lparr> b_id = 1, b_title = ''The Great Gatsby'', b_author = ''F. Scott Fitzgerald'',
              b_isbn = ''9780743273565'', b_available_quantity = 5, b_total_quantity = 5 \<rparr>"

definition mockingbird :: book where
  "mockingbird = \<lparr> b_id = 2, b_title = ''To Kill a Mockingbird'', b_author = ''Harper Lee'',
                   b_isbn = ''9780446310789'', b_available_quantity = 3, b_total_quantity = 4 \<rparr>"

definition john :: borrower where
  "john = \<lparr> brw_id = 1, brw_name = ''John Smith'', brw_email = ''john.smith@email.com'' \<rparr>"

definition emma :: borrower where
  "emma = \<lparr> brw_id = 2, brw_name = ''Emma Johnson'', brw_email = ''emma.johnson@email.com'' \<rparr>"

definition catalogue_db :: database where
  "catalogue_db = \<lparr> books = [gatsby, mockingbird], borrowers = [john, emma], borrowings = [],
               books_id_seq = 3, borrowings_id_seq = 1 \<rparr>"

text \<open>The catalogue before the second book is entered, and the request that enters it.\<close>

definition gatsby_db :: database where
  "gatsby_db = \<lparr> books = [gatsby], borrowers = [john, emma], borrowings = [],
                 books_id_seq = 2, borrowings_id_seq = 1 \<rparr>"

definition mockingbird_request :: create_request where
  "mockingbird_request =
     \<lparr> cr_title = ''To Kill a Mockingbird'', cr_author = ''Harper Lee'',
       cr_isbn = ''9780446310789'', cr_available_quantity = Some 3, cr_total_quantity = Some 4 \<rparr>"

definition noon :: timestamp where
  "noon = 19732 * 86400000 + 43200000"

definition clock_at :: "timestamp \<Rightarrow> checkout_clock" where
  "clock_at t = \<lparr> default_due_read = t, checkout_date_read = t, validation_read = t,
                  response_read = t \<rparr>"

definition midnight_clock :: checkout_clock where
  "midnight_clock =
     \<lparr> default_due_read = 19733 * 86400000 - 1, checkout_date_read = 19733 * 86400000,
       validation_read = 19733 * 86400000, response_read = 19733 * 86400000 \<rparr>"

text \<open>A loan of the first book to the first borrower, due on 2024-01-01 (day 19723).\<close>

definition loan :: borrowing where
  "loan = \<lparr> br_id = 1, br_book_id = 1, br_borrower_id = 1, br_checkout_date = 19709,
            br_due_date = 19723, br_return_date = None \<rparr>"

definition loan_db :: database where
  "loan_db = \<lparr> books = [gatsby \<lparr> b_available_quantity := 4 \<rparr>, mockingbird],
               borrowers = [john, emma], borrowings = [loan],
               books_id_seq = 3, borrowings_id_seq = 2 \<rparr>"

text \<open>A library with a single copy of one book, which the first borrower holds.\<close>

definition single_copy_db :: database where
  "single_copy_db =
     \<lparr> books = [gatsby \<lparr> b_available_quantity := 0, b_total_quantity := 1 \<rparr>],
       borrowers = [john], borrowings = [loan],
       books_id_seq = 2, borrowings_id_seq = 2 \<rparr>"

text \<open>The state after that loan is returned on 2024-01-10.\<close>

definition returned_db :: database where
  "returned_db = loan_db \<lparr> books := [gatsby, mockingbird],
                            borrowings := [loan \<lparr> br_return_date := Some 19732 \<rparr>] \<rparr>"

text \<open>
  A history with a direct inventory edit: a book is catalogued with one copy, lent,
  its available count is edited back to 1, and the loan is returned. The last
  definition is an edit that asks for more available copies than the book has.
\<close>

definition dune_request :: create_request where
  "dune_request = \<lparr> cr_title = '' Dune '', cr_author = ''Frank Herbert'', cr_isbn = ''9780441013593'',
                     cr_available_quantity = Some 1, cr_total_quantity = None \<rparr>"

definition restock :: book_update where
  "restock = \<lparr> u_title = None, u_author = None, u_isbn = None,
               u_available_quantity = Some 1, u_total_quantity = None \<rparr>"

definition overstock :: book_update where
  "overstock = \<lparr> u_title = None, u_author = None, u_isbn = None,
                 u_available_quantity = Some 5, u_total_quantity = None \<rparr>"

definition edited_history :: "operation list" where
  "edited_history =
     [CreateBook dune_request,
      Checkout (clock_at noon) \<lparr> book_id = 3, borrower_id = 1, due_date = None \<rparr>,
      UpdateBook 3 restock,
      Return noon 1]"

section \<open>Rows selected by a key\<close>

lemma filter_key_single:
  "distinct (map f xs) \<Longrightarrow> first_row (filter (\<lambda>x. f x = k) xs) = Some b \<Longrightarrow> filter (\<lambda>x. f x = k) xs = [b]"
proof (induction xs)
  case Nil
  then show ?case by (simp add: first_row_def)
next
  case (Cons a xs)
  show ?case
  proof (cases "f a = k")
    case True
    with Cons.prems have "a = b" by (simp add: first_row_def)
    moreover from True Cons.prems have "k \<notin> f ` set xs" by simp
    then have "filter (\<lambda>x. f x = k) xs = []"
      by (auto simp: filter_empty_conv)
    ultimately show ?thesis using True by simp
  next
    case False
    with Cons show ?thesis by simp
  qed
qed

text \<open>
  \<open>BookService.updateBookAvailability\<close> on an existing book: a change that would
  make the count negative selects no row, and one that would exceed the total is
  rejected by \<open>books_available_lte_total\<close>.
\<close>

lemma updateAvailability_refuses:
  assumes d: "distinct (map b_id (books db))"
    and f: "BookRepository_findById db bookId = Some b"
    and bad: "b_available_quantity b + delta < 0 \<or> b_available_quantity b + delta > b_total_quantity b"
  shows "(\<exists>e. fst (BookService_updateBookAvailability db bookId delta) = Inl e) \<and>
         snd (BookService_updateBookAvailability db bookId delta) = db"
proof -
  have single: "filter (\<lambda>x. b_id x = bookId) (books db) = [b]"
    using filter_key_single [OF d] f by (simp add: BookRepository_findById_def)
  have split: "filter (\<lambda>x. b_id x = bookId \<and> 0 \<le> b_available_quantity x + delta) (books db) =
        filter (\<lambda>x. 0 \<le> b_available_quantity x + delta) (filter (\<lambda>x. b_id x = bookId) (books db))"
    by (simp add: conj_commute)
  show ?thesis
  proof (cases "b_available_quantity b + delta < 0")
    case True
    then have none: "filter (\<lambda>x. b_id x = bookId \<and> 0 \<le> b_available_quantity x + delta) (books db) = []"
      unfolding split single by simp
    have same: "map (\<lambda>x. if b_id x = bookId \<and> 0 \<le> b_available_quantity x + delta
                 then x\<lparr>b_available_quantity := b_available_quantity x + delta\<rparr> else x) (books db) = books db"
      using none by (intro map_idI) (auto simp: filter_empty_conv)
    show ?thesis
      by (simp add: BookService_updateBookAvailability_def BookRepository_updateAvailability_def
          update_books_def none same first_row_def)
  next
    case False
    with bad have over: "b_available_quantity b + delta > b_total_quantity b" by simp
    from False have sel: "filter (\<lambda>x. b_id x = bookId \<and> 0 \<le> b_available_quantity x + delta) (books db) = [b]"
      unfolding split single by simp
    show ?thesis using over
      by (simp add: BookService_updateBookAvailability_def BookRepository_updateAvailability_def
          update_books_def sel books_checks_def)
  qed
qed

lemma updateAvailability_applies:
  assumes d: "distinct (map b_id (books db))"
    and f: "BookRepository_findById db bookId = Some b"
    and ok: "0 \<le> b_available_quantity b + delta" "b_available_quantity b + delta \<le> b_total_quantity b"
  shows "BookService_updateBookAvailability db bookId delta =
           (Inr (b\<lparr>b_available_quantity := b_available_quantity b + delta\<rparr>),
            db\<lparr>books := map (\<lambda>x. if b_id x = bookId
                                  then x\<lparr>b_available_quantity := b_available_quantity x + delta\<rparr>
                                  else x) (books db)\<rparr>)"
proof -
  have single: "filter (\<lambda>x. b_id x = bookId) (books db) = [b]"
    using filter_key_single [OF d] f by (simp add: BookRepository_findById_def)
  have split: "filter (\<lambda>x. b_id x = bookId \<and> 0 \<le> b_available_quantity x + delta) (books db) =
        filter (\<lambda>x. 0 \<le> b_available_quantity x + delta) (filter (\<lambda>x. b_id x = bookId) (books db))"
    by (simp add: conj_commute)
  have sel: "filter (\<lambda>x. b_id x = bookId \<and> 0 \<le> b_available_quantity x + delta) (books db) = [b]"
    unfolding split single using ok by simp
  have "x \<in> set (books db) \<Longrightarrow> b_id x = bookId \<Longrightarrow> x = b" for x
  proof -
    assume "x \<in> set (books db)" "b_id x = bookId"
    then have "x \<in> set (filter (\<lambda>x. b_id x = bookId) (books db))" by simp
    then show "x = b" unfolding single by simp
  qed
  then have same: "map (\<lambda>x. if b_id x = bookId \<and> 0 \<le> b_available_quantity x + delta
                 then x\<lparr>b_available_quantity := b_available_quantity x + delta\<rparr> else x) (books db) =
          map (\<lambda>x. if b_id x = bookId then x\<lparr>b_available_quantity := b_available_quantity x + delta\<rparr> else x) (books db)"
    using ok by (intro map_cong) auto
  show ?thesis using ok
    by (simp add: BookService_updateBookAvailability_def BookRepository_updateAvailability_def
        update_books_def sel same books_checks_def first_row_def)
qed


text \<open>
  C7. For every call \<open>updateBookAvailability(bookId, delta)\<close> on an existing book:
  when the resulting \<open>available_quantity\<close> would be negative or would exceed
  \<open>total_quantity\<close>, the call fails and leaves the database as it was; otherwise
  it sets \<open>available_quantity\<close> of that book to \<open>available_quantity + delta\<close>,
  returns the new row and changes no other book.
\<close>

theorem updateAvailability_guarded:
  assumes "primary_keys_ok db" and "BookRepository_findById db bookId = Some b"
  shows "if b_available_quantity b + delta < 0 \<or> b_total_quantity b < b_available_quantity b + delta
         then (\<exists>e. fst (BookService_updateBookAvailability db bookId delta) = Inl e) \<and>
              snd (BookService_updateBookAvailability db bookId delta) = db
         else BookService_updateBookAvailability db bookId delta =
                (Inr (b\<lparr>b_available_quantity := b_available_quantity b + delta\<rparr>),
                 db\<lparr>books := map (\<lambda>x. if b_id x = bookId
                                       then x\<lparr>b_available_quantity := b_available_quantity x + delta\<rparr>
                                       else x) (books db)\<rparr>)"
proof -
  from assms(1) have d: "distinct (map b_id (books db))" by (simp add: primary_keys_ok_def)
  show ?thesis
  proof (cases "b_available_quantity b + delta < 0 \<or> b_total_quantity b < b_available_quantity b + delta")
    case True
    with updateAvailability_refuses [OF d assms(2)] show ?thesis by simp
  next
    case False
    then have "0 \<le> b_available_quantity b + delta" "b_available_quantity b + delta \<le> b_total_quantity b"
      by simp_all
    from updateAvailability_applies [OF d assms(2) this] False show ?thesis by simp
  qed
qed

text \<open>
  The second book of the catalogue has 3 of 4 copies available; adding 2 is refused.
\<close>

theorem updateAvailability_guarded_witness:
  "primary_keys_ok catalogue_db \<and> BookRepository_findById catalogue_db 2 = Some mockingbird \<and>
   (\<exists>e. fst (BookService_updateBookAvailability catalogue_db 2 2) = Inl e) \<and>
   snd (BookService_updateBookAvailability catalogue_db 2 2) = catalogue_db"
proof -
  have pk: "primary_keys_ok catalogue_db"
    by (simp add: primary_keys_ok_def catalogue_db_def gatsby_def mockingbird_def john_def emma_def)
  have f: "BookRepository_findById catalogue_db 2 = Some mockingbird"
    by (simp add: BookRepository_findById_def first_row_def catalogue_db_def gatsby_def mockingbird_def)
  from updateAvailability_guarded [OF pk f, of 2] pk f show ?thesis
    by (simp add: mockingbird_def)
qed


section \<open>The repository transactions\<close>

lemma first_row_Some_mem: "first_row xs = Some x \<Longrightarrow> x \<in> set xs"
  by (cases xs) (simp_all add: first_row_def)

lemma first_row_None: "first_row xs = None \<longleftrightarrow> xs = []"
  by (cases xs) (simp_all add: first_row_def)

lemma create_Inl:
  assumes "BorrowingRepository_create db d = (Inl e, db')"
  shows "books db' = books db \<and> borrowers db' = borrowers db \<and> borrowings db' = borrowings db"
  using assms
  by (auto simp: BorrowingRepository_create_def insert_borrowing_def Let_def update_books_def
      split: option.splits if_splits sum.splits prod.splits)

lemma create_Inr:
  assumes "BorrowingRepository_create db d = (Inr row, db')"
  shows "db' = db \<lparr> borrowings_id_seq := borrowings_id_seq db + 1,
                    borrowings := borrowings db @ [inserted_row db d],
                    books := map (\<lambda>b. if b_id b = cd_book_id d
                                       then b \<lparr> b_available_quantity := b_available_quantity b - 1 \<rparr>
                                       else b) (books db) \<rparr>"
    and "row = first_row (details_by_id db' (borrowings_id_seq db))"
    and "borrowings_checks (inserted_row db d)"
    and "borrowings_id_seq db \<notin> set (map br_id (borrowings db))"
    and "\<exists>b. BookRepository_findById db (cd_book_id d) = Some b \<and> 0 < b_available_quantity b"
    and "\<exists>w. BorrowerRepository_findById db (cd_borrower_id d) = Some w"
  using assms
  by (auto simp: BorrowingRepository_create_def insert_borrowing_def Let_def update_books_def
      inserted_row_def BookRepository_findById_def BorrowerRepository_findById_def
      split: option.splits if_splits sum.splits prod.splits)

lemma returnBook_Inl:
  assumes "BorrowingRepository_returnBook db i rd = (Inl e, db')"
  shows "db' = db"
  using assms
  by (auto simp: BorrowingRepository_returnBook_def Let_def update_books_def update_borrowings_def
      split: option.splits if_splits sum.splits prod.splits)

lemma returnBook_Inr:
  assumes "BorrowingRepository_returnBook db i rd = (Inr row, db')"
  shows "\<exists>r. first_row (filter (\<lambda>r. br_id r = i \<and> br_return_date r = None) (borrowings db)) = Some r \<and>
          db' = db \<lparr> borrowings := map (\<lambda>x. if br_id x = i then x \<lparr> br_return_date := Some rd \<rparr> else x) (borrowings db),
                     books := map (\<lambda>b. if b_id b = br_book_id r
                                        then b \<lparr> b_available_quantity := b_available_quantity b + 1 \<rparr>
                                        else b) (books db) \<rparr> \<and>
          list_all books_checks (map (\<lambda>b. b \<lparr> b_available_quantity := b_available_quantity b + 1 \<rparr>)
                                  (filter (\<lambda>b. b_id b = br_book_id r) (books db)))"
    and "row = first_row (details_by_id db' i)"
  using assms
  by (auto simp: BorrowingRepository_returnBook_def Let_def update_books_def update_borrowings_def
      split: option.splits if_splits sum.splits prod.splits)

lemma extend_fails:
  "\<exists>e. BorrowingRepository_extendDueDate db i nd reason = (Inl e, db)"
  by (simp add: BorrowingRepository_extendDueDate_def split: option.splits)

lemma extend_service_fails:
  "\<exists>e. BorrowingService_extendDueDate now db i newDueDate reason = (Inl e, db)"
proof (cases newDueDate)
  case None
  then show ?thesis by (simp add: BorrowingService_extendDueDate_def)
next
  case (Some nd)
  from extend_fails [of db i nd reason] obtain e where
    "BorrowingRepository_extendDueDate db i nd reason = (Inl e, db)" by blast
  with Some show ?thesis by (simp add: BorrowingService_extendDueDate_def)
qed

lemma extend_service_state:
  "snd (BorrowingService_extendDueDate now db i newDueDate reason) = db"
  using extend_service_fails [of now db i newDueDate reason] by auto

section \<open>The relationship invariant\<close>

lemma relationship_invariant_iff:
  "relationship_invariant db \<longleftrightarrow>
     (\<forall>b\<in>set (books db). b_available_quantity b = b_total_quantity b - int (active_count db (b_id b)))"
  by (simp add: relationship_invariant_def list_all_iff)

lemma book_relation_iff:
  "book_relation db k \<longleftrightarrow>
     (\<forall>b\<in>set (books db). b_id b = k \<longrightarrow>
        b_available_quantity b = b_total_quantity b - int (active_count db k))"
  by (auto simp: book_relation_def list_all_iff)

lemma relationship_invariant_books:
  "relationship_invariant db \<longleftrightarrow> (\<forall>k. book_relation db k)"
  by (auto simp: relationship_invariant_iff book_relation_iff)

lemma book_relation_tables:
  "books db' = books db \<Longrightarrow> borrowings db' = borrowings db \<Longrightarrow>
   book_relation db' k = book_relation db k"
  by (simp add: book_relation_def active_count_def)

lemma map_no_key:
  "k \<notin> f ` set xs \<Longrightarrow> map (\<lambda>x. if f x = k then g x else x) xs = xs"
  by (intro map_idI) auto

lemma count_after_return:
  assumes "distinct (map br_id rs)" and "r \<in> set rs" and "br_id r = i" and "br_return_date r = None"
  shows "length (filter (\<lambda>x. br_book_id x = k \<and> br_return_date x = None)
                   (map (\<lambda>x. if br_id x = i then x \<lparr> br_return_date := Some rd \<rparr> else x) rs))
           + (if br_book_id r = k then 1 else 0)
         = length (filter (\<lambda>x. br_book_id x = k \<and> br_return_date x = None) rs)"
  using assms
proof (induction rs)
  case Nil
  then show ?case by simp
next
  case (Cons a rs)
  show ?case
  proof (cases "a = r")
    case True
    with Cons.prems have "i \<notin> br_id ` set rs" by auto
    then have "map (\<lambda>x. if br_id x = i then x \<lparr> br_return_date := Some rd \<rparr> else x) rs = rs"
      by (rule map_no_key)
    with True Cons.prems show ?thesis by simp
  next
    case False
    with Cons.prems have mem: "r \<in> set rs" by simp
    with Cons.prems have na: "br_id a \<noteq> i" by force
    from Cons.prems have dist: "distinct (map br_id rs)" by simp
    note IH = Cons.IH [OF dist mem Cons.prems(3,4)]
    from na IH show ?thesis by (simp split: if_splits)
  qed
qed

lemma create_preserves_relation:
  assumes rel: "book_relation db k"
    and run: "BorrowingRepository_create db d = (res, db')"
  shows "book_relation db' k"
proof (cases res)
  case (Inl e)
  with run create_Inl [of db d e db'] have "books db' = books db \<and> borrowings db' = borrowings db" by simp
  with rel book_relation_tables [of db' db k] show ?thesis by simp
next
  case (Inr row)
  with run have run': "BorrowingRepository_create db d = (Inr row, db')" by simp
  note eq = create_Inr(1) [OF run']
  have bs: "books db' = map (\<lambda>b. if b_id b = cd_book_id d
                                       then b \<lparr> b_available_quantity := b_available_quantity b - 1 \<rparr>
                                       else b) (books db)"
    and rs: "borrowings db' = borrowings db @ [inserted_row db d]"
    by (simp_all add: eq)
  have cnt: "active_count db' k = active_count db k + (if k = cd_book_id d then 1 else 0)"
    by (simp add: rs active_count_def inserted_row_def)
  show ?thesis
    unfolding book_relation_iff
  proof (intro ballI impI)
    fix b' assume "b' \<in> set (books db')" and k: "b_id b' = k"
    then obtain b where b: "b \<in> set (books db)"
      and b': "b' = (if b_id b = cd_book_id d then b \<lparr> b_available_quantity := b_available_quantity b - 1 \<rparr> else b)"
      unfolding bs by auto
    from b' k have bk: "b_id b = k" by (simp split: if_splits)
    with rel b have "b_available_quantity b = b_total_quantity b - int (active_count db k)"
      by (simp add: book_relation_iff)
    with bk show "b_available_quantity b' = b_total_quantity b' - int (active_count db' k)"
      by (simp add: b' cnt)
  qed
qed

lemma returnBook_preserves_relation:
  assumes rel: "book_relation db k"
    and pk: "distinct (map br_id (borrowings db))"
    and run: "BorrowingRepository_returnBook db i rd = (res, db')"
  shows "book_relation db' k"
proof (cases res)
  case (Inl e)
  with run returnBook_Inl [of db i rd e db'] have "db' = db" by simp
  with rel show ?thesis by simp
next
  case (Inr row)
  from Inr run have run': "BorrowingRepository_returnBook db i rd = (Inr row, db')" by simp
  from returnBook_Inr(1) [OF run'] obtain r where
    r: "first_row (filter (\<lambda>r. br_id r = i \<and> br_return_date r = None) (borrowings db)) = Some r"
    and eq: "db' = db \<lparr> borrowings := map (\<lambda>x. if br_id x = i then x \<lparr> br_return_date := Some rd \<rparr> else x) (borrowings db),
                     books := map (\<lambda>b. if b_id b = br_book_id r
                                        then b \<lparr> b_available_quantity := b_available_quantity b + 1 \<rparr>
                                        else b) (books db) \<rparr>"
    by blast
  have bs: "books db' = map (\<lambda>b. if b_id b = br_book_id r
                                        then b \<lparr> b_available_quantity := b_available_quantity b + 1 \<rparr>
                                        else b) (books db)"
    and rs: "borrowings db' = map (\<lambda>x. if br_id x = i then x \<lparr> br_return_date := Some rd \<rparr> else x) (borrowings db)"
    by (simp_all add: eq)
  from first_row_Some_mem [OF r] have mem: "r \<in> set (borrowings db)" "br_id r = i" "br_return_date r = None"
    by simp_all
  have cnt: "active_count db' k + (if br_book_id r = k then 1 else 0) = active_count db k"
    using count_after_return [OF pk mem, of k rd] by (simp add: rs active_count_def)
  show ?thesis
    unfolding book_relation_iff
  proof (intro ballI impI)
    fix b' assume "b' \<in> set (books db')" and k: "b_id b' = k"
    then obtain b where b: "b \<in> set (books db)"
      and b': "b' = (if b_id b = br_book_id r then b \<lparr> b_available_quantity := b_available_quantity b + 1 \<rparr> else b)"
      unfolding bs by auto
    from b' k have bk: "b_id b = k" by (simp split: if_splits)
    with rel b have "b_available_quantity b = b_total_quantity b - int (active_count db k)"
      by (simp add: book_relation_iff)
    with cnt bk show "b_available_quantity b' = b_total_quantity b' - int (active_count db' k)"
      by (simp add: b' split: if_splits)
  qed
qed


lemma create_preserves_distinct:
  assumes "distinct (map br_id (borrowings db))" and "BorrowingRepository_create db d = (res, db')"
  shows "distinct (map br_id (borrowings db'))"
proof (cases res)
  case (Inl e)
  with assms create_Inl [of db d e db'] show ?thesis by simp
next
  case (Inr row)
  with assms have run': "BorrowingRepository_create db d = (Inr row, db')" by simp
  from create_Inr(1) [OF run'] have "borrowings db' = borrowings db @ [inserted_row db d]" by simp
  with create_Inr(4) [OF run'] assms(1) show ?thesis
    by (simp add: inserted_row_def)
qed

lemma map_keeps_ids: "map br_id (map (\<lambda>x. if c x then x \<lparr> br_return_date := v \<rparr> else x) rs) = map br_id rs"
  by (induction rs) simp_all

lemma returnBook_preserves_distinct:
  assumes "distinct (map br_id (borrowings db))" and "BorrowingRepository_returnBook db i rd = (res, db')"
  shows "distinct (map br_id (borrowings db'))"
proof (cases res)
  case (Inl e)
  with assms returnBook_Inl [of db i rd e db'] show ?thesis by simp
next
  case (Inr row)
  with assms have run': "BorrowingRepository_returnBook db i rd = (Inr row, db')" by simp
  from returnBook_Inr(1) [OF run'] have
    "borrowings db' = map (\<lambda>x. if br_id x = i then x \<lparr> br_return_date := Some rd \<rparr> else x) (borrowings db)"
    by auto
  then have "map br_id (borrowings db') = map br_id (borrowings db)"
    by (simp only: map_keeps_ids)
  with assms(1) show ?thesis by simp
qed

lemma apply_tx_preserves:
  assumes "book_relation db k \<and> distinct (map br_id (borrowings db))"
  shows "book_relation (apply_tx db tx) k \<and> distinct (map br_id (borrowings (apply_tx db tx)))"
proof (cases tx)
  case (Tx_create d)
  obtain res db' where run: "BorrowingRepository_create db d = (res, db')" by (cases "BorrowingRepository_create db d")
  with assms create_preserves_relation [of db k d res db'] create_preserves_distinct [of db d res db']
    Tx_create show ?thesis by simp
next
  case (Tx_returnBook i rd)
  obtain res db' where run: "BorrowingRepository_returnBook db i rd = (res, db')" by (cases "BorrowingRepository_returnBook db i rd")
  with assms returnBook_preserves_relation [of db k i rd res db']
    returnBook_preserves_distinct [of db i rd res db'] Tx_returnBook show ?thesis by simp
qed

lemma foldl_apply_tx_preserves:
  "book_relation db k \<and> distinct (map br_id (borrowings db)) \<Longrightarrow>
   book_relation (foldl apply_tx db txs) k \<and> distinct (map br_id (borrowings (foldl apply_tx db txs)))"
proof (induction txs arbitrary: db)
  case Nil
  then show ?case by simp
next
  case (Cons tx txs)
  from Cons.IH [OF apply_tx_preserves [OF Cons.prems]] show ?case by simp
qed

section \<open>Checkout\<close>

lemma set_details_where:
  "set (details_where db c) =
     {join_details r b w | r b w.
        r \<in> set (borrowings db) \<and> c r \<and> b \<in> set (books db) \<and> b_id b = br_book_id r \<and>
        w \<in> set (borrowers db) \<and> brw_id w = br_borrower_id r}"
  by (auto simp: details_where_def)

lemma details_where_nonempty:
  assumes "r \<in> set (borrowings db)" "c r" "b \<in> set (books db)" "b_id b = br_book_id r"
    "w \<in> set (borrowers db)" "brw_id w = br_borrower_id r"
  shows "details_where db c \<noteq> []"
proof -
  from assms have "join_details r b w \<in> set (details_where db c)"
    unfolding set_details_where by blast
  then show ?thesis by auto
qed

lemma create_returns_row:
  assumes run: "BorrowingRepository_create db d = (Inr row, db')"
  shows "\<exists>x. row = Some x \<and> x \<in> set (details_by_id db' (borrowings_id_seq db))"
proof -
  note eq = create_Inr(1) [OF run]
  have bs: "books db' = map (\<lambda>b. if b_id b = cd_book_id d
                                       then b \<lparr> b_available_quantity := b_available_quantity b - 1 \<rparr>
                                       else b) (books db)"
    and rs: "borrowings db' = borrowings db @ [inserted_row db d]"
    and ws: "borrowers db' = borrowers db"
    by (simp_all add: eq)
  from create_Inr(5) [OF run] obtain b where "BookRepository_findById db (cd_book_id d) = Some b" by blast
  then have b: "b \<in> set (books db)" "b_id b = cd_book_id d"
    using first_row_Some_mem [of "filter (\<lambda>b. b_id b = cd_book_id d) (books db)" b]
    by (simp_all add: BookRepository_findById_def)
  from create_Inr(6) [OF run] obtain w where "BorrowerRepository_findById db (cd_borrower_id d) = Some w" by blast
  then have w: "w \<in> set (borrowers db)" "brw_id w = cd_borrower_id d"
    using first_row_Some_mem [of "filter (\<lambda>w. brw_id w = cd_borrower_id d) (borrowers db)" w]
    by (simp_all add: BorrowerRepository_findById_def)
  let ?b' = "b \<lparr> b_available_quantity := b_available_quantity b - 1 \<rparr>"
  from b have b': "?b' \<in> set (books db')" unfolding bs by force
  have "details_where db' (\<lambda>r. br_id r = borrowings_id_seq db) \<noteq> []"
    by (rule details_where_nonempty [of "inserted_row db d" _ _ ?b' w])
       (use b b' w in \<open>simp_all add: rs ws inserted_row_def\<close>)
  then have "details_by_id db' (borrowings_id_seq db) \<noteq> []" by (simp add: details_by_id_def)
  then obtain x where x: "first_row (details_by_id db' (borrowings_id_seq db)) = Some x"
    by (cases "details_by_id db' (borrowings_id_seq db)") (simp_all add: first_row_def)
  with create_Inr(2) [OF run] first_row_Some_mem [OF x] show ?thesis by simp
qed

lemma checkoutBook_Inr:
  assumes "BorrowingService_checkoutBook clock db req = (Inr resp, db')"
  shows "\<exists>row. BorrowingRepository_create db (sanitized_checkout clock req) = (Inr (Some row), db') \<and>
               resp = enriched (response_read clock) row"
  using assms
  by (auto simp: BorrowingService_checkoutBook_def Let_def detailed_def
      split: option.splits if_splits sum.splits prod.splits)

lemma checkoutBook_Inl:
  assumes run: "BorrowingService_checkoutBook clock db req = (Inl e, db')"
  shows "books db' = books db \<and> borrowers db' = borrowers db \<and> borrowings db' = borrowings db"
proof -
  let ?d = "sanitized_checkout clock req"
  obtain res db1 where cr: "BorrowingRepository_create db ?d = (res, db1)"
    by (cases "BorrowingRepository_create db ?d")
  show ?thesis
  proof (cases res)
    case (Inl e1)
    with cr create_Inl [of db ?d e1 db1]
    have "books db1 = books db \<and> borrowers db1 = borrowers db \<and> borrowings db1 = borrowings db" by simp
    with run cr Inl show ?thesis
      by (auto simp: BorrowingService_checkoutBook_def Let_def
          split: option.splits if_splits)
  next
    case (Inr row)
    with cr create_returns_row [of db ?d row db1] obtain x where "row = Some x" by auto
    with run cr Inr show ?thesis
      by (auto simp: BorrowingService_checkoutBook_def Let_def detailed_def
          split: option.splits if_splits)
  qed
qed

lemma iso_date_14: "iso_date (now + 1209600000) = iso_date now + 14"
  unfolding iso_date_def ms_per_day_def by simp

lemma filter_id_map_update:
  assumes "\<And>b. b_id (g b) = b_id b"
  shows "filter (\<lambda>b. b_id b = k) (map (\<lambda>b. if c b then g b else b) bs) =
         map (\<lambda>b. if c b then g b else b) (filter (\<lambda>b. b_id b = k) bs)"
  by (induction bs) (simp_all add: assms)

text \<open>
  C2. For a checkout request that passes \<open>validateCheckoutData\<close>: whenever a
  precondition of the checkout fails (the book or the borrower does not exist, the
  book has \<open>available_quantity \<le> 0\<close>, or the borrower holds an active borrowing of
  this book), the checkout fails, leaves the database as it was, and throws the error
  of a precondition that has failed: \<open>Book not found\<close> or \<open>Borrower not found\<close>
  only when that row does not exist, \<open>Book is not available for checkout\<close> only when
  the book has no available copy, \<open>Borrower already has this book checked out\<close> only
  when the borrower holds the book. Where several fail, the checks are made in the
  order book, availability, borrower, duplicate, and the first that fails decides.
  Whenever a checkout fails, no borrowing is created and no book row changes.
\<close>

theorem checkout_failures:
  assumes valid: "validateCheckoutData (validation_read clock) (sanitized_checkout clock req) = None"
  shows "(BookRepository_findById db (book_id req) = None \<or>
          BorrowerRepository_findById db (borrower_id req) = None \<or>
          (\<exists>b. BookRepository_findById db (book_id req) = Some b \<and> b_available_quantity b \<le> 0) \<or>
          BorrowingRepository_hasActiveBorrowing db (borrower_id req) (book_id req) \<longrightarrow>
            (\<exists>m. BorrowingService_checkoutBook clock db req = (Inl (Error m), db) \<and>
               (m = ''Book not found'' \<and> BookRepository_findById db (book_id req) = None \<or>
                m = ''Borrower not found'' \<and> BorrowerRepository_findById db (borrower_id req) = None \<or>
                m = ''Book is not available for checkout'' \<and>
                  (\<exists>b. BookRepository_findById db (book_id req) = Some b \<and> b_available_quantity b \<le> 0) \<or>
                m = ''Borrower already has this book checked out'' \<and>
                  BorrowingRepository_hasActiveBorrowing db (borrower_id req) (book_id req)))) \<and>
         (BookRepository_findById db (book_id req) = None \<longrightarrow>
            BorrowingService_checkoutBook clock db req = (Inl (Error ''Book not found''), db)) \<and>
         (\<forall>b. BookRepository_findById db (book_id req) = Some b \<and> b_available_quantity b \<le> 0 \<longrightarrow>
            BorrowingService_checkoutBook clock db req =
              (Inl (Error ''Book is not available for checkout''), db)) \<and>
         (\<forall>b. BookRepository_findById db (book_id req) = Some b \<and> 0 < b_available_quantity b \<and>
              BorrowerRepository_findById db (borrower_id req) = None \<longrightarrow>
            BorrowingService_checkoutBook clock db req = (Inl (Error ''Borrower not found''), db)) \<and>
         (\<forall>b w. BookRepository_findById db (book_id req) = Some b \<and> 0 < b_available_quantity b \<and>
              BorrowerRepository_findById db (borrower_id req) = Some w \<and>
              BorrowingRepository_hasActiveBorrowing db (borrower_id req) (book_id req) \<longrightarrow>
            BorrowingService_checkoutBook clock db req =
              (Inl (Error ''Borrower already has this book checked out''), db)) \<and>
         (\<forall>e db'. BorrowingService_checkoutBook clock db req = (Inl e, db') \<longrightarrow>
            borrowings db' = borrowings db \<and> books db' = books db)"
proof -
  have ids: "cd_book_id (sanitized_checkout clock req) = book_id req"
    "cd_borrower_id (sanitized_checkout clock req) = borrower_id req"
    by (simp_all add: fromCheckoutRequest_def)
  have pre: "BorrowingService_checkoutBook clock db req = (Inl (Error ''Book not found''), db)"
    if "BookRepository_findById db (book_id req) = None"
    using valid that by (simp add: BorrowingService_checkoutBook_def Let_def ids)
  have unavailable: "BorrowingService_checkoutBook clock db req =
              (Inl (Error ''Book is not available for checkout''), db)"
    if "BookRepository_findById db (book_id req) = Some b" "b_available_quantity b \<le> 0" for b
    using valid that by (simp add: BorrowingService_checkoutBook_def Let_def ids)
  have no_borrower: "BorrowingService_checkoutBook clock db req = (Inl (Error ''Borrower not found''), db)"
    if "BookRepository_findById db (book_id req) = Some b" "0 < b_available_quantity b"
      "BorrowerRepository_findById db (borrower_id req) = None" for b
    using valid that by (simp add: BorrowingService_checkoutBook_def Let_def ids)
  have duplicate: "BorrowingService_checkoutBook clock db req =
              (Inl (Error ''Borrower already has this book checked out''), db)"
    if "BookRepository_findById db (book_id req) = Some b" "0 < b_available_quantity b"
      "BorrowerRepository_findById db (borrower_id req) = Some w"
      "BorrowingRepository_hasActiveBorrowing db (borrower_id req) (book_id req)" for b w
    using valid that by (simp add: BorrowingService_checkoutBook_def Let_def ids)
  have unchanged: "borrowings db' = borrowings db \<and> books db' = books db"
    if "BorrowingService_checkoutBook clock db req = (Inl e, db')" for e db'
    using checkoutBook_Inl [OF that] by simp
  have some: "\<exists>m. BorrowingService_checkoutBook clock db req = (Inl (Error m), db) \<and>
               (m = ''Book not found'' \<and> BookRepository_findById db (book_id req) = None \<or>
                m = ''Borrower not found'' \<and> BorrowerRepository_findById db (borrower_id req) = None \<or>
                m = ''Book is not available for checkout'' \<and>
                  (\<exists>b. BookRepository_findById db (book_id req) = Some b \<and> b_available_quantity b \<le> 0) \<or>
                m = ''Borrower already has this book checked out'' \<and>
                  BorrowingRepository_hasActiveBorrowing db (borrower_id req) (book_id req))"
    if failed: "BookRepository_findById db (book_id req) = None \<or>
          BorrowerRepository_findById db (borrower_id req) = None \<or>
          (\<exists>b. BookRepository_findById db (book_id req) = Some b \<and> b_available_quantity b \<le> 0) \<or>
          BorrowingRepository_hasActiveBorrowing db (borrower_id req) (book_id req)"
  proof (cases "BookRepository_findById db (book_id req)")
    case None
    with pre show ?thesis by simp
  next
    case (Some b)
    show ?thesis
    proof (cases "b_available_quantity b \<le> 0")
      case True
      with Some unavailable [of b] show ?thesis by simp
    next
      case False
      then have pos: "0 < b_available_quantity b" by simp
      show ?thesis
      proof (cases "BorrowerRepository_findById db (borrower_id req)")
        case None
        with Some pos no_borrower [of b] show ?thesis by simp
      next
        case w: (Some w)
        with failed Some False
        have "BorrowingRepository_hasActiveBorrowing db (borrower_id req) (book_id req)" by simp
        with Some pos w duplicate [of b w] show ?thesis by simp
      qed
    qed
  qed
  from some pre unavailable no_borrower duplicate unchanged show ?thesis by blast
qed

text \<open>
  A request for an available book of the catalogue by a borrower that does not exist
  is answered \<open>Borrower not found\<close>; the same request for the single copy that is on
  loan, where two preconditions fail, is answered
  \<open>Book is not available for checkout\<close>.
\<close>

theorem checkout_failures_witness:
  "validateCheckoutData (validation_read (clock_at noon))
     (sanitized_checkout (clock_at noon) \<lparr>book_id = 2, borrower_id = 7, due_date = None\<rparr>) = None \<and>
   BookRepository_findById catalogue_db 2 = Some mockingbird \<and> 0 < b_available_quantity mockingbird \<and>
   BorrowerRepository_findById catalogue_db 7 = None \<and>
   BorrowingService_checkoutBook (clock_at noon) catalogue_db \<lparr>book_id = 2, borrower_id = 7, due_date = None\<rparr> =
     (Inl (Error ''Borrower not found''), catalogue_db) \<and>
   validateCheckoutData (validation_read (clock_at noon))
     (sanitized_checkout (clock_at noon) \<lparr>book_id = 1, borrower_id = 7, due_date = None\<rparr>) = None \<and>
   BookRepository_findById single_copy_db 1 =
     Some (gatsby \<lparr> b_available_quantity := 0, b_total_quantity := 1 \<rparr>) \<and>
   BorrowerRepository_findById single_copy_db 7 = None \<and>
   BorrowingService_checkoutBook (clock_at noon) single_copy_db \<lparr>book_id = 1, borrower_id = 7, due_date = None\<rparr> =
     (Inl (Error ''Book is not available for checkout''), single_copy_db)"
proof -
  let ?req = "\<lparr>book_id = 2, borrower_id = 7, due_date = None\<rparr>"
  let ?req1 = "\<lparr>book_id = 1, borrower_id = 7, due_date = None\<rparr>"
  have v: "validateCheckoutData (validation_read (clock_at noon)) (sanitized_checkout (clock_at noon) ?req) = None"
    by code_simp
  have b: "BookRepository_findById catalogue_db 2 = Some mockingbird"
    by (simp add: BookRepository_findById_def first_row_def catalogue_db_def gatsby_def mockingbird_def)
  have a: "0 < b_available_quantity mockingbird" by (simp add: mockingbird_def)
  have w: "BorrowerRepository_findById catalogue_db 7 = None"
    by (simp add: BorrowerRepository_findById_def first_row_def catalogue_db_def john_def emma_def)
  have v1: "validateCheckoutData (validation_read (clock_at noon)) (sanitized_checkout (clock_at noon) ?req1) = None"
    by code_simp
  have b1: "BookRepository_findById single_copy_db 1 =
     Some (gatsby \<lparr> b_available_quantity := 0, b_total_quantity := 1 \<rparr>)"
    by (simp add: BookRepository_findById_def first_row_def single_copy_db_def gatsby_def)
  have w1: "BorrowerRepository_findById single_copy_db 7 = None"
    by (simp add: BorrowerRepository_findById_def first_row_def single_copy_db_def john_def)
  from checkout_failures [OF v, of catalogue_db] b a w
  have first: "BorrowingService_checkoutBook (clock_at noon) catalogue_db ?req =
     (Inl (Error ''Borrower not found''), catalogue_db)" by simp
  from checkout_failures [OF v1, of single_copy_db] b1
  have "BorrowingService_checkoutBook (clock_at noon) single_copy_db ?req1 =
     (Inl (Error ''Book is not available for checkout''), single_copy_db)" by simp
  with first v b a w v1 b1 w1 show ?thesis by simp
qed

text \<open>
  What a successful checkout does. The book of the request has one available copy
  less and no other book changes; the borrowings table has exactly one more row, with
  \<open>return_date\<close> NULL, \<open>checkout_date\<close> the day of the second reading of the
  clock, and the due date of the request or, when the request has none, fourteen days
  after the day of the first reading.
\<close>

lemma checkout_effect:
  assumes run: "BorrowingService_checkoutBook clock db req = (Inr resp, db')"
  shows "(\<exists>b. BookRepository_findById db (book_id req) = Some b \<and>
              BookRepository_findById db' (book_id req) =
                Some (b \<lparr> b_available_quantity := b_available_quantity b - 1 \<rparr>)) \<and>
         books db' = map (\<lambda>b. if b_id b = book_id req
                               then b \<lparr> b_available_quantity := b_available_quantity b - 1 \<rparr>
                               else b) (books db) \<and>
         borrowings db' = borrowings db @
           [\<lparr> br_id = borrowings_id_seq db, br_book_id = book_id req,
              br_borrower_id = borrower_id req, br_checkout_date = iso_date (checkout_date_read clock),
              br_due_date = (case due_date req of Some d \<Rightarrow> d
                             | None \<Rightarrow> iso_date (default_due_read clock) + 14),
              br_return_date = None \<rparr>] \<and>
         borrowers db' = borrowers db"
proof -
  let ?d = "sanitized_checkout clock req"
  from checkoutBook_Inr [OF run] obtain row where
    cr: "BorrowingRepository_create db ?d = (Inr (Some row), db')" by blast
  have ids: "cd_book_id ?d = book_id req" by (simp add: fromCheckoutRequest_def)
  note eq = create_Inr(1) [OF cr]
  have bs: "books db' = map (\<lambda>b. if b_id b = book_id req
                               then b \<lparr> b_available_quantity := b_available_quantity b - 1 \<rparr>
                               else b) (books db)"
    and rs: "borrowings db' = borrowings db @ [inserted_row db ?d]"
    and ws: "borrowers db' = borrowers db"
    by (simp_all add: eq ids)
  have row: "inserted_row db ?d =
     \<lparr> br_id = borrowings_id_seq db, br_book_id = book_id req,
       br_borrower_id = borrower_id req, br_checkout_date = iso_date (checkout_date_read clock),
       br_due_date = (case due_date req of Some d \<Rightarrow> d
                      | None \<Rightarrow> iso_date (default_due_read clock) + 14),
       br_return_date = None \<rparr>"
    by (simp add: inserted_row_def fromCheckoutRequest_def iso_date_14 split: option.splits)
  from create_Inr(5) [OF cr] obtain b where
    b: "BookRepository_findById db (book_id req) = Some b" by (auto simp: ids)
  have "filter (\<lambda>x. b_id x = book_id req) (books db') =
        map (\<lambda>b. if b_id b = book_id req
                  then b \<lparr> b_available_quantity := b_available_quantity b - 1 \<rparr> else b)
          (filter (\<lambda>x. b_id x = book_id req) (books db))"
    unfolding bs by (rule filter_id_map_update) simp
  moreover from b have "b_id b = book_id req"
    using first_row_Some_mem [of "filter (\<lambda>x. b_id x = book_id req) (books db)" b]
    by (simp add: BookRepository_findById_def)
  ultimately have "BookRepository_findById db' (book_id req) =
                Some (b \<lparr> b_available_quantity := b_available_quantity b - 1 \<rparr>)"
    using b by (cases "filter (\<lambda>x. b_id x = book_id req) (books db)")
       (simp_all add: BookRepository_findById_def first_row_def)
  with b bs rs ws row show ?thesis by simp
qed

text \<open>
  When the request has no due date, the stored due date is \<open>checkout_date + 14\<close> if
  the two readings of \<open>fromCheckoutRequest\<close> fall on the same day, and never more
  than that if the clock does not go back.
\<close>

lemma iso_date_mono: "s \<le> t \<Longrightarrow> iso_date s \<le> iso_date t"
  unfolding iso_date_def ms_per_day_def by (rule zdiv_mono1) simp_all

lemma checkout_default_due_date:
  assumes run: "BorrowingService_checkoutBook clock db req = (Inr resp, db')"
    and none: "due_date req = None"
  shows "iso_date (default_due_read clock) = iso_date (checkout_date_read clock) \<Longrightarrow>
           br_due_date (last (borrowings db')) = br_checkout_date (last (borrowings db')) + 14"
    and "default_due_read clock \<le> checkout_date_read clock \<Longrightarrow>
           br_due_date (last (borrowings db')) \<le> br_checkout_date (last (borrowings db')) + 14"
proof -
  from checkout_effect [OF run] none
  have l: "last (borrowings db') =
     \<lparr> br_id = borrowings_id_seq db, br_book_id = book_id req,
       br_borrower_id = borrower_id req, br_checkout_date = iso_date (checkout_date_read clock),
       br_due_date = iso_date (default_due_read clock) + 14, br_return_date = None \<rparr>"
    by simp
  show "iso_date (default_due_read clock) = iso_date (checkout_date_read clock) \<Longrightarrow>
           br_due_date (last (borrowings db')) = br_checkout_date (last (borrowings db')) + 14"
    by (simp add: l)
  show "default_due_read clock \<le> checkout_date_read clock \<Longrightarrow>
           br_due_date (last (borrowings db')) \<le> br_checkout_date (last (borrowings db')) + 14"
    using iso_date_mono [of "default_due_read clock" "checkout_date_read clock"] by (simp add: l)
qed

text \<open>
  The first borrower checks out the second book of the catalogue at noon of
  2024-01-10 without a due date (Scenario B of the spec).
\<close>

lemma checkout_at_noon:
  "BorrowingService_checkoutBook (clock_at noon) catalogue_db \<lparr>book_id = 2, borrower_id = 1, due_date = None\<rparr> =
     (Inr (enriched noon (join_details
             \<lparr> br_id = 1, br_book_id = 2, br_borrower_id = 1, br_checkout_date = 19732,
               br_due_date = 19746, br_return_date = None \<rparr>
             (mockingbird \<lparr> b_available_quantity := 2 \<rparr>) john)),
      catalogue_db \<lparr> books := [gatsby, mockingbird \<lparr> b_available_quantity := 2 \<rparr>],
               borrowings := [\<lparr> br_id = 1, br_book_id = 2, br_borrower_id = 1, br_checkout_date = 19732,
               br_due_date = 19746, br_return_date = None \<rparr>],
               borrowings_id_seq := 2 \<rparr>)"
  by code_simp

text \<open>
  C3 fails on the code when midnight UTC passes between the two readings of
  \<open>fromCheckoutRequest\<close>. The same checkout, reading 2024-01-10T23:59:59.999Z for
  the default due date and 2024-01-11T00:00:00.000Z for the checkout date, succeeds
  and stores \<open>checkout_date\<close> 2024-01-11 (day 19733) with \<open>due_date\<close> 2024-01-24
  (day 19746): thirteen days, not fourteen. The other parts of C3 hold there: one
  new borrowing without return date, and one available copy less.
\<close>

theorem checkout_across_midnight:
  "BorrowingService_checkoutBook midnight_clock catalogue_db \<lparr>book_id = 2, borrower_id = 1, due_date = None\<rparr> =
     (Inr (enriched (19733 * 86400000) (join_details
             \<lparr> br_id = 1, br_book_id = 2, br_borrower_id = 1, br_checkout_date = 19733,
               br_due_date = 19746, br_return_date = None \<rparr>
             (mockingbird \<lparr> b_available_quantity := 2 \<rparr>) john)),
      catalogue_db \<lparr> books := [gatsby, mockingbird \<lparr> b_available_quantity := 2 \<rparr>],
               borrowings := [\<lparr> br_id = 1, br_book_id = 2, br_borrower_id = 1, br_checkout_date = 19733,
               br_due_date = 19746, br_return_date = None \<rparr>],
               borrowings_id_seq := 2 \<rparr>) \<and>
   iso_date (default_due_read midnight_clock) = 19732 \<and>
   iso_date (checkout_date_read midnight_clock) = 19733 \<and>
   map (\<lambda>r. br_due_date r - br_checkout_date r)
     (borrowings (snd (BorrowingService_checkoutBook midnight_clock catalogue_db
        \<lparr>book_id = 2, borrower_id = 1, due_date = None\<rparr>))) = [13]"
  by code_simp

section \<open>The invariant across checkouts and returns\<close>

lemma checkoutBook_state:
  "snd (BorrowingService_checkoutBook clock db req) = db \<or>
   snd (BorrowingService_checkoutBook clock db req) =
     snd (BorrowingRepository_create db (sanitized_checkout clock req))"
  by (auto simp: BorrowingService_checkoutBook_def Let_def
      split: option.splits if_splits sum.splits prod.splits)

lemma returnBook_state:
  "snd (BorrowingService_returnBook now db i) = db \<or>
   snd (BorrowingService_returnBook now db i) =
     snd (BorrowingRepository_returnBook db i (fromReturnRequest now))"
  by (auto simp: BorrowingService_returnBook_def Let_def
      split: option.splits if_splits sum.splits prod.splits)

lemma checkoutBook_preserves_relation:
  assumes rel: "book_relation db k"
  shows "book_relation (snd (BorrowingService_checkoutBook clock db req)) k"
proof -
  have "book_relation (snd (BorrowingRepository_create db (sanitized_checkout clock req))) k"
    using create_preserves_relation [OF rel, of "sanitized_checkout clock req"]
    by (cases "BorrowingRepository_create db (sanitized_checkout clock req)") simp
  with rel checkoutBook_state [of clock db req] show ?thesis by auto
qed

lemma returnBook_service_preserves_relation:
  assumes rel: "book_relation db k" and pk: "distinct (map br_id (borrowings db))"
  shows "book_relation (snd (BorrowingService_returnBook now db i)) k"
proof -
  have "book_relation (snd (BorrowingRepository_returnBook db i (fromReturnRequest now))) k"
    using returnBook_preserves_relation [OF rel pk, of i "fromReturnRequest now"]
    by (cases "BorrowingRepository_returnBook db i (fromReturnRequest now)") simp
  with rel returnBook_state [of now db i] show ?thesis by auto
qed

text \<open>
  C1, as amended. For every book: if its \<open>available_quantity\<close> equals its
  \<open>total_quantity\<close> minus the number of active borrowings of the book (and the ids
  of the borrowings are distinct, as their primary key demands), then the same holds
  for that book after every checkout and every return of the service, successful or
  not and whichever book it moves, and after any sequence of the two repository
  transactions, which is what concurrent checkouts and returns amount to.
\<close>

theorem relationship_preserved:
  assumes rel: "book_relation db k" and pk: "distinct (map br_id (borrowings db))"
  shows "book_relation (snd (BorrowingService_checkoutBook clock db req)) k \<and>
         book_relation (snd (BorrowingService_returnBook now db i)) k \<and>
         book_relation (foldl apply_tx db txs) k"
proof -
  note c = checkoutBook_preserves_relation [OF rel, of clock req]
  note r = returnBook_service_preserves_relation [OF rel pk, of now i]
  from foldl_apply_tx_preserves [of db k txs] rel pk
  have "book_relation (foldl apply_tx db txs) k" by simp
  with c r show ?thesis by simp
qed

text \<open>
  In the database with one loan the first book has 4 of 5 copies available and one
  active borrowing. The equation holds for it after the second borrower checks it
  out, after the loan is returned, and after both; the second book, which was
  catalogued with 3 of 4 copies, plays no part.
\<close>

theorem relationship_preserved_witness:
  "book_relation loan_db 1 \<and> distinct (map br_id (borrowings loan_db)) \<and>
   \<not> relationship_invariant loan_db \<and>
   \<not> isl (fst (BorrowingService_checkoutBook (clock_at noon) loan_db
                  \<lparr>book_id = 1, borrower_id = 2, due_date = None\<rparr>)) \<and>
   book_relation (snd (BorrowingService_checkoutBook (clock_at noon) loan_db
      \<lparr>book_id = 1, borrower_id = 2, due_date = None\<rparr>)) 1 \<and>
   \<not> isl (fst (BorrowingService_returnBook noon loan_db 1)) \<and>
   book_relation (snd (BorrowingService_returnBook noon loan_db 1)) 1 \<and>
   book_relation (foldl apply_tx loan_db
      [Tx_create \<lparr>cd_book_id = 1, cd_borrower_id = 2, cd_due_date = 19746, cd_checkout_date = 19732\<rparr>,
       Tx_returnBook 1 19732]) 1"
proof -
  have rel: "book_relation loan_db 1" by code_simp
  have pk: "distinct (map br_id (borrowings loan_db))" by code_simp
  have other: "\<not> relationship_invariant loan_db" by code_simp
  have c: "\<not> isl (fst (BorrowingService_checkoutBook (clock_at noon) loan_db
                  \<lparr>book_id = 1, borrower_id = 2, due_date = None\<rparr>))" by code_simp
  have r: "\<not> isl (fst (BorrowingService_returnBook noon loan_db 1))" by code_simp
  from relationship_preserved [OF rel pk] rel pk other c r show ?thesis by blast
qed

text \<open>
  The equation of every book, in a database where it holds for every book.
\<close>

lemma relationship_invariant_preserved:
  assumes inv: "relationship_invariant db" and pk: "distinct (map br_id (borrowings db))"
  shows "relationship_invariant (snd (BorrowingService_checkoutBook clock db req))"
    and "relationship_invariant (snd (BorrowingService_returnBook now db i))"
    and "relationship_invariant (foldl apply_tx db txs)"
proof -
  from inv have rel: "book_relation db k" for k by (simp add: relationship_invariant_books)
  show "relationship_invariant (snd (BorrowingService_checkoutBook clock db req))"
    unfolding relationship_invariant_books using checkoutBook_preserves_relation [OF rel] by blast
  show "relationship_invariant (snd (BorrowingService_returnBook now db i))"
    unfolding relationship_invariant_books
    using returnBook_service_preserves_relation [OF rel pk] by blast
  show "relationship_invariant (foldl apply_tx db txs)"
    unfolding relationship_invariant_books
    using foldl_apply_tx_preserves [of db _ txs] rel pk by blast
qed

text \<open>
  C1 as stated fails: \<open>createBook\<close> enters the second book with 3 of 4 copies
  available and no borrowing; a checkout then succeeds and leaves 2 of 4 with one
  active borrowing.
\<close>

theorem relationship_counterexample:
  "BookService_createBook gatsby_db mockingbird_request = (Inr mockingbird, catalogue_db) \<and>
   \<not> isl (fst (BorrowingService_checkoutBook (clock_at noon) catalogue_db
                  \<lparr>book_id = 2, borrower_id = 1, due_date = None\<rparr>)) \<and>
   \<not> relationship_invariant
        (snd (BorrowingService_checkoutBook (clock_at noon) catalogue_db
                \<lparr>book_id = 2, borrower_id = 1, due_date = None\<rparr>))"
  by code_simp

section \<open>Return\<close>

lemma distinct_key_unique:
  "distinct (map f xs) \<Longrightarrow> x \<in> set xs \<Longrightarrow> y \<in> set xs \<Longrightarrow> f x = f y \<Longrightarrow> x = y"
  by (meson distinct_map inj_onD)

lemma first_row_nonempty: "xs \<noteq> [] \<Longrightarrow> \<exists>x. first_row xs = Some x \<and> x \<in> set xs"
  by (cases xs) (simp_all add: first_row_def)

lemma join_details_fields [simp]:
  "br_id (join_details r b w) = br_id r"
  "br_book_id (join_details r b w) = br_book_id r"
  "br_borrower_id (join_details r b w) = br_borrower_id r"
  "br_checkout_date (join_details r b w) = br_checkout_date r"
  "br_due_date (join_details r b w) = br_due_date r"
  "br_return_date (join_details r b w) = br_return_date r"
  "title (join_details r b w) = b_title b"
  "author (join_details r b w) = b_author b"
  "isbn (join_details r b w) = b_isbn b"
  "borrower_name (join_details r b w) = brw_name w"
  "borrower_email (join_details r b w) = brw_email w"
  by (simp_all add: join_details_def)

text \<open>The detail rows of an id after the return transaction.\<close>

lemma details_after_return:
  assumes bs: "books db' = map (\<lambda>b. if b_id b = k
                                        then b \<lparr> b_available_quantity := b_available_quantity b + 1 \<rparr>
                                        else b) (books db)"
    and rs: "borrowings db' = map (\<lambda>x. if br_id x = i then x \<lparr> br_return_date := Some rd \<rparr> else x) (borrowings db)"
    and ws: "borrowers db' = borrowers db"
  shows "\<forall>x\<in>set (details_by_id db' i). br_return_date x = Some rd"
    and "details_by_id db i \<noteq> [] \<Longrightarrow> details_by_id db' i \<noteq> []"
proof -
  show "\<forall>x\<in>set (details_by_id db' i). br_return_date x = Some rd"
  proof
    fix x assume "x \<in> set (details_by_id db' i)"
    then obtain r b w where x: "x = join_details r b w"
      and r: "r \<in> set (borrowings db')" "br_id r = i"
      unfolding details_by_id_def set_details_where by blast
    from r(1) have "r \<in> (\<lambda>x. if br_id x = i then x \<lparr> br_return_date := Some rd \<rparr> else x) ` set (borrowings db)"
      unfolding rs by simp
    then obtain r0 where "r = (if br_id r0 = i then r0 \<lparr> br_return_date := Some rd \<rparr> else r0)"
      by blast
    with r(2) have "br_return_date r = Some rd" by (cases "br_id r0 = i") simp_all
    with x show "br_return_date x = Some rd" by simp
  qed
  assume "details_by_id db i \<noteq> []"
  then obtain x where "x \<in> set (details_where db (\<lambda>r. br_id r = i))"
    unfolding details_by_id_def by (cases "details_where db (\<lambda>r. br_id r = i)") auto
  then obtain r b w where r: "r \<in> set (borrowings db)" "br_id r = i"
    and b: "b \<in> set (books db)" "b_id b = br_book_id r"
    and w: "w \<in> set (borrowers db)" "brw_id w = br_borrower_id r"
    unfolding set_details_where by blast
  let ?r' = "r \<lparr> br_return_date := Some rd \<rparr>"
  let ?b' = "if b_id b = k then b \<lparr> b_available_quantity := b_available_quantity b + 1 \<rparr> else b"
  from r have r': "?r' \<in> set (borrowings db')" unfolding rs by force
  from b have b': "?b' \<in> set (books db')" unfolding bs by force
  have "details_where db' (\<lambda>r. br_id r = i) \<noteq> []"
    by (rule details_where_nonempty [of ?r' _ _ ?b' w]) (use r r' b b' w in \<open>simp_all add: ws\<close>)
  then show "details_by_id db' i \<noteq> []" by (simp add: details_by_id_def)
qed



lemma returnBook_service_Inr:
  assumes run: "BorrowingService_returnBook now db i = (Inr resp, db')"
  shows "\<exists>row. BorrowingRepository_returnBook db i (iso_date now) = (Inr (Some row), db') \<and>
               resp = enriched now row \<and> details_by_id db i \<noteq> []"
proof (cases "BorrowingRepository_findById db i")
  case None
  with run show ?thesis by (simp add: BorrowingService_returnBook_def Let_def)
next
  case (Some borrowing)
  then have ne: "details_by_id db i \<noteq> []"
    by (auto simp: BorrowingRepository_findById_def first_row_def)
  obtain res db1 where rr: "BorrowingRepository_returnBook db i (iso_date now) = (res, db1)"
    by (cases "BorrowingRepository_returnBook db i (iso_date now)")
  from run Some rr have act: "br_return_date borrowing = None"
    by (simp add: BorrowingService_returnBook_def Let_def split: if_splits)
  with run Some rr have "(case res of Inl e \<Rightarrow> (Inl e, db1) | Inr u \<Rightarrow> (detailed now u, db1)) = (Inr resp, db')"
    by (simp add: BorrowingService_returnBook_def Let_def fromReturnRequest_def)
  then obtain row where "res = Inr (Some row)" "db1 = db'" "resp = enriched now row"
    by (cases res) (auto simp: detailed_def split: option.splits)
  with rr ne show ?thesis by simp
qed

lemma returnBook_service_Inl:
  assumes run: "BorrowingService_returnBook now db i = (Inl e, db')"
  shows "db' = db"
proof (cases "BorrowingRepository_findById db i")
  case None
  with run show ?thesis by (simp add: BorrowingService_returnBook_def Let_def)
next
  case (Some borrowing)
  then have ne: "details_by_id db i \<noteq> []"
    by (auto simp: BorrowingRepository_findById_def first_row_def)
  obtain res db1 where rr: "BorrowingRepository_returnBook db i (iso_date now) = (res, db1)"
    by (cases "BorrowingRepository_returnBook db i (iso_date now)")
  show ?thesis
  proof (cases "br_return_date borrowing = None")
    case False
    with run Some show ?thesis by (simp add: BorrowingService_returnBook_def Let_def)
  next
    case True
    with run Some rr have out: "(case res of Inl e \<Rightarrow> (Inl e, db1) | Inr u \<Rightarrow> (detailed now u, db1)) = (Inl e, db')"
      by (simp add: BorrowingService_returnBook_def Let_def fromReturnRequest_def)
    show ?thesis
    proof (cases res)
      case (Inl e1)
      with rr returnBook_Inl [of db i "iso_date now" e1 db1] have "db1 = db" by simp
      with out Inl show ?thesis by simp
    next
      case (Inr row)
      with rr have rr': "BorrowingRepository_returnBook db i (iso_date now) = (Inr row, db1)" by simp
      from returnBook_Inr(1) [OF rr'] obtain r :: borrowing where
        eq: "db1 = db \<lparr> borrowings := map (\<lambda>x. if br_id x = i then x \<lparr> br_return_date := Some (iso_date now) \<rparr> else x) (borrowings db),
                     books := map (\<lambda>b. if b_id b = br_book_id r
                                        then b \<lparr> b_available_quantity := b_available_quantity b + 1 \<rparr>
                                        else b) (books db) \<rparr>"
        by blast
      have "details_by_id db1 i \<noteq> []"
        by (rule details_after_return(2) [where db = db and k = "br_book_id r" and rd = "iso_date now"])
           (simp_all add: eq ne)
      with returnBook_Inr(2) [OF rr'] obtain x where "row = Some x"
        by (cases "details_by_id db1 i") (simp_all add: first_row_def)
      with out Inr show ?thesis by (simp add: detailed_def)
    qed
  qed
qed

lemma returned_row_refused:
  assumes ne: "details_by_id db i \<noteq> []"
    and all: "\<forall>x\<in>set (details_by_id db i). br_return_date x \<noteq> None"
  shows "BorrowingService_returnBook now db i = (Inl (Error ''Book has already been returned''), db)"
proof -
  from first_row_nonempty [OF ne] obtain x where
    x: "first_row (details_by_id db i) = Some x" "x \<in> set (details_by_id db i)" by blast
  with all have "br_return_date x \<noteq> None" by blast
  with x(1) show ?thesis
    by (simp add: BorrowingService_returnBook_def Let_def BorrowingRepository_findById_def)
qed

lemma return_not_found:
  assumes "\<forall>r\<in>set (borrowings db). br_id r \<noteq> i"
  shows "BorrowingService_returnBook now db i = (Inl (Error ''Borrowing not found''), db)"
proof -
  from assms have "filter (\<lambda>r. br_id r = i) (borrowings db) = []"
    by (simp add: filter_empty_conv)
  then have "details_by_id db i = []" by (simp add: details_by_id_def details_where_def)
  then show ?thesis
    by (simp add: BorrowingService_returnBook_def Let_def BorrowingRepository_findById_def first_row_def)
qed

lemma return_already_returned:
  assumes pk: "primary_keys_ok db" and fk: "references_ok db"
    and r: "r \<in> set (borrowings db)" "br_id r = i" "br_return_date r \<noteq> None"
  shows "BorrowingService_returnBook now db i = (Inl (Error ''Book has already been returned''), db)"
proof (rule returned_row_refused)
  from fk r(1) obtain b w where b: "b \<in> set (books db)" "b_id b = br_book_id r"
    and w: "w \<in> set (borrowers db)" "brw_id w = br_borrower_id r"
    by (auto simp: references_ok_def list_all_iff)
  have "details_where db (\<lambda>r. br_id r = i) \<noteq> []"
    by (rule details_where_nonempty [of r _ _ b w]) (use r b w in simp_all)
  then show "details_by_id db i \<noteq> []" by (simp add: details_by_id_def)
  from pk have d: "distinct (map br_id (borrowings db))" by (simp add: primary_keys_ok_def)
  show "\<forall>x\<in>set (details_by_id db i). br_return_date x \<noteq> None"
  proof
    fix x assume "x \<in> set (details_by_id db i)"
    then obtain r' b' w' where x: "x = join_details r' b' w'"
      and r': "r' \<in> set (borrowings db)" "br_id r' = i"
      unfolding details_by_id_def set_details_where by blast
    from distinct_key_unique [OF d r'(1) r(1)] r'(2) r(2) have "r' = r" by simp
    with x r(3) show "br_return_date x \<noteq> None" by simp
  qed
qed

lemma return_twice:
  assumes run: "BorrowingService_returnBook now db i = (Inr resp, db')"
  shows "BorrowingService_returnBook now' db' i = (Inl (Error ''Book has already been returned''), db')"
proof (rule returned_row_refused)
  from returnBook_service_Inr [OF run] obtain row where
    rr: "BorrowingRepository_returnBook db i (iso_date now) = (Inr (Some row), db')"
    and ne: "details_by_id db i \<noteq> []" by blast
  from returnBook_Inr(1) [OF rr] obtain r :: borrowing where
    eq: "db' = db \<lparr> borrowings := map (\<lambda>x. if br_id x = i then x \<lparr> br_return_date := Some (iso_date now) \<rparr> else x) (borrowings db),
                     books := map (\<lambda>b. if b_id b = br_book_id r
                                        then b \<lparr> b_available_quantity := b_available_quantity b + 1 \<rparr>
                                        else b) (books db) \<rparr>"
    by blast
  show "details_by_id db' i \<noteq> []"
    by (rule details_after_return(2) [where db = db and k = "br_book_id r" and rd = "iso_date now"])
       (simp_all add: eq ne)
  have "\<forall>x\<in>set (details_by_id db' i). br_return_date x = Some (iso_date now)"
    by (rule details_after_return(1) [where db = db and k = "br_book_id r"]) (simp_all add: eq)
  then show "\<forall>x\<in>set (details_by_id db' i). br_return_date x \<noteq> None" by simp
qed

text \<open>
  What a successful return does: the return date is today, the book of the borrowing
  has one more available copy, and the response carries the summaries of the book and
  the borrower.
\<close>

lemma return_effect:
  assumes run: "BorrowingService_returnBook now db i = (Inr resp, db')"
  shows "\<exists>r. r \<in> set (borrowings db) \<and> br_id r = i \<and> br_return_date r = None \<and>
           borrowings db' =
             map (\<lambda>x. if br_id x = i then x \<lparr> br_return_date := Some (iso_date now) \<rparr> else x)
               (borrowings db) \<and>
           books db' =
             map (\<lambda>b. if b_id b = br_book_id r
                       then b \<lparr> b_available_quantity := b_available_quantity b + 1 \<rparr> else b)
               (books db) \<and>
           borrowers db' = borrowers db"
    and "resp_id resp = i \<and> resp_return_date resp = Some (iso_date now)"
    and "\<exists>b\<in>set (books db'). \<exists>w\<in>set (borrowers db').
           b_id b = resp_book_id resp \<and> brw_id w = resp_borrower_id resp \<and>
           resp_book resp = Some \<lparr> bs_title = b_title b, bs_author = b_author b, bs_isbn = b_isbn b \<rparr> \<and>
           resp_borrower resp = Some \<lparr> ws_name = brw_name w, ws_email = brw_email w \<rparr>"
proof -
  from returnBook_service_Inr [OF run] obtain row where
    rr: "BorrowingRepository_returnBook db i (iso_date now) = (Inr (Some row), db')"
    and resp: "resp = enriched now row" by blast
  from returnBook_Inr(1) [OF rr] obtain r :: borrowing where
    r: "first_row (filter (\<lambda>r. br_id r = i \<and> br_return_date r = None) (borrowings db)) = Some r"
    and eq: "db' = db \<lparr> borrowings := map (\<lambda>x. if br_id x = i then x \<lparr> br_return_date := Some (iso_date now) \<rparr> else x) (borrowings db),
                     books := map (\<lambda>b. if b_id b = br_book_id r
                                        then b \<lparr> b_available_quantity := b_available_quantity b + 1 \<rparr>
                                        else b) (books db) \<rparr>"
    by blast
  have tables: "borrowings db' =
             map (\<lambda>x. if br_id x = i then x \<lparr> br_return_date := Some (iso_date now) \<rparr> else x)
               (borrowings db)"
    "books db' =
             map (\<lambda>b. if b_id b = br_book_id r
                       then b \<lparr> b_available_quantity := b_available_quantity b + 1 \<rparr> else b)
               (books db)"
    "borrowers db' = borrowers db"
    by (simp_all add: eq)
  from first_row_Some_mem [OF r] have "r \<in> set (borrowings db)" "br_id r = i" "br_return_date r = None"
    by simp_all
  with tables show "\<exists>r. r \<in> set (borrowings db) \<and> br_id r = i \<and> br_return_date r = None \<and>
           borrowings db' =
             map (\<lambda>x. if br_id x = i then x \<lparr> br_return_date := Some (iso_date now) \<rparr> else x)
               (borrowings db) \<and>
           books db' =
             map (\<lambda>b. if b_id b = br_book_id r
                       then b \<lparr> b_available_quantity := b_available_quantity b + 1 \<rparr> else b)
               (books db) \<and>
           borrowers db' = borrowers db"
    by blast
  from returnBook_Inr(2) [OF rr] have "first_row (details_by_id db' i) = Some row" by simp
  from first_row_Some_mem [OF this] have mem: "row \<in> set (details_by_id db' i)" .
  from details_after_return(1) [OF tables(2) tables(1) tables(3)] mem
  have rd: "br_return_date row = Some (iso_date now)" by blast
  from mem obtain r' b w where row: "row = join_details r' b w"
    and r': "br_id r' = i" and b: "b \<in> set (books db')" "b_id b = br_book_id r'"
    and w: "w \<in> set (borrowers db')" "brw_id w = br_borrower_id r'"
    unfolding details_by_id_def set_details_where by blast
  from rd row r' show "resp_id resp = i \<and> resp_return_date resp = Some (iso_date now)"
    by (simp add: resp enriched_def toDetailedBorrowingResponse_def)
  from row b w show "\<exists>b\<in>set (books db'). \<exists>w\<in>set (borrowers db').
           b_id b = resp_book_id resp \<and> brw_id w = resp_borrower_id resp \<and>
           resp_book resp = Some \<lparr> bs_title = b_title b, bs_author = b_author b, bs_isbn = b_isbn b \<rparr> \<and>
           resp_borrower resp = Some \<lparr> ws_name = brw_name w, ws_email = brw_email w \<rparr>"
    by (auto simp: resp enriched_def toDetailedBorrowingResponse_def)
qed

lemma controller_ignores_return_date:
  "BorrowingController_returnBook now db \<lparr> borrowing_id = i, return_date = d \<rparr> =
   BorrowingService_returnBook now db i"
  by (simp add: BorrowingController_returnBook_def)

section \<open>Return date of the request, extension, deletion, overdue\<close>

text \<open>The response for a borrowing that has a return date does not depend on the clock.\<close>

lemma enriched_returned:
  "br_return_date r \<noteq> None \<Longrightarrow> enriched t r = enriched t' r"
  by (cases "br_return_date r") (simp_all add: enriched_def toDetailedBorrowingResponse_def)


text \<open>
  C5 fails on the code. A return request with \<open>return_date = 2024-01-08\<close> (day
  19730), sent at noon of 2024-01-10, stores 2024-01-10 (day 19732): the controller
  passes only \<open>borrowing_id\<close> to the service and \<open>fromReturnRequest\<close> does not
  read its argument.
\<close>

theorem return_date_ignored:
  "BorrowingController_returnBook noon loan_db \<lparr>borrowing_id = 1, return_date = Some 19730\<rparr> =
     (Inr (enriched noon (join_details (loan \<lparr> br_return_date := Some 19732 \<rparr>) gatsby john)), returned_db) \<and>
   resp_return_date (enriched noon (join_details (loan \<lparr> br_return_date := Some 19732 \<rparr>) gatsby john)) = Some 19732 \<and>
   map br_return_date (borrowings returned_db) = [Some 19732]"
  by code_simp


text \<open>
  Every call of \<open>extendDueDate\<close> throws and leaves the database as it was.
\<close>

lemma extension_never_succeeds:
  "isl (fst (BorrowingService_extendDueDate now db i newDueDate reason)) \<and>
   snd (BorrowingService_extendDueDate now db i newDueDate reason) = db"
  using extend_service_fails [of now db i newDueDate reason] by auto

text \<open>
  C9. While an active borrowing references a book and a borrower, deleting that book
  fails with \<open>Cannot delete book with active borrowings\<close>, deleting that borrower
  fails with \<open>Cannot delete borrower with active borrowings\<close>, and the database is
  left as it was.
\<close>

theorem delete_guards:
  assumes fk: "references_ok db" and r: "r \<in> set (borrowings db)" and act: "br_return_date r = None"
  shows "BookService_deleteBook db (br_book_id r) =
           (Inl (Error ''Cannot delete book with active borrowings''), db) \<and>
         BorrowerService_deleteBorrower db (br_borrower_id r) =
           (Inl (Error ''Cannot delete borrower with active borrowings''), db)"
proof -
  from fk r obtain b w where b: "b \<in> set (books db)" "b_id b = br_book_id r"
    and w: "w \<in> set (borrowers db)" "brw_id w = br_borrower_id r"
    by (auto simp: references_ok_def list_all_iff)
  from b have "filter (\<lambda>b. b_id b = br_book_id r) (books db) \<noteq> []"
    by (auto simp: filter_empty_conv)
  from first_row_nonempty [OF this] obtain b0 where
    b0: "BookRepository_findById db (br_book_id r) = Some b0"
    by (auto simp: BookRepository_findById_def)
  from r act have "BorrowingRepository_hasActiveBookBorrowings db (br_book_id r)"
    by (auto simp: BorrowingRepository_hasActiveBookBorrowings_def filter_empty_conv)
  with b0 have book: "BookService_deleteBook db (br_book_id r) =
           (Inl (Error ''Cannot delete book with active borrowings''), db)"
    by (simp add: BookService_deleteBook_def)
  from w have "filter (\<lambda>w. brw_id w = br_borrower_id r) (borrowers db) \<noteq> []"
    by (auto simp: filter_empty_conv)
  from first_row_nonempty [OF this] obtain w0 where
    w0: "BorrowerRepository_findById db (br_borrower_id r) = Some w0"
    by (auto simp: BorrowerRepository_findById_def)
  from r act b have "(b, r) \<in> set (BorrowerRepository_getCurrentBooks db (br_borrower_id r))"
    by (auto simp: BorrowerRepository_getCurrentBooks_def)
  then have "BorrowerRepository_getCurrentBooks db (br_borrower_id r) \<noteq> []" by auto
  with w0 have "BorrowerService_deleteBorrower db (br_borrower_id r) =
           (Inl (Error ''Cannot delete borrower with active borrowings''), db)"
    by (simp add: BorrowerService_deleteBorrower_def)
  with book show ?thesis by simp
qed

text \<open>
  The book and the borrower of the loan cannot be deleted.
\<close>

theorem delete_guards_witness:
  "references_ok loan_db \<and> loan \<in> set (borrowings loan_db) \<and> br_return_date loan = None \<and>
   BookService_deleteBook loan_db 1 =
     (Inl (Error ''Cannot delete book with active borrowings''), loan_db) \<and>
   BorrowerService_deleteBorrower loan_db 1 =
     (Inl (Error ''Cannot delete borrower with active borrowings''), loan_db)"
proof -
  have fk: "references_ok loan_db" by code_simp
  have r: "loan \<in> set (borrowings loan_db)" by (simp add: loan_db_def)
  have act: "br_return_date loan = None" by (simp add: loan_def)
  from delete_guards [OF fk r act] fk r act show ?thesis by (simp add: loan_def)
qed

text \<open>
  C10 fails on the code. For the loan due on 2024-01-01, viewed at noon of
  2024-01-10, the response reports \<open>days_overdue = 10\<close> where the query computed 9;
  and a loan due on 2024-01-10 itself is reported overdue by one day on that day,
  while the queries call it active.
\<close>

theorem days_overdue_off_by_one:
  "map days_overdue (BorrowingService_getOverdueBorrowings noon loan_db) = [10] \<and>
   map snd (BorrowingRepository_findOverdue loan_db (iso_date noon)) = [9] \<and>
   sql_days_overdue (iso_date noon) loan = 9 \<and>
   is_overdue (enriched noon (join_details (loan \<lparr> br_due_date := 19732 \<rparr>) gatsby john)) \<and>
   days_overdue (enriched noon (join_details (loan \<lparr> br_due_date := 19732 \<rparr>) gatsby john)) = 1 \<and>
   sql_status (iso_date noon) (loan \<lparr> br_due_date := 19732 \<rparr>) = ''active''"
  by code_simp

section \<open>Available and total quantity\<close>

lemma update_books_checks:
  assumes "update_books c f bs = Inr bs'" and "list_all books_checks bs"
  shows "list_all books_checks bs'"
proof -
  from assms(1) have ok: "list_all books_checks (map f (filter c bs))"
    and bs': "bs' = map (\<lambda>b. if c b then f b else b) bs"
    by (auto simp: update_books_def split: if_splits)
  show ?thesis
    unfolding bs' list_all_iff
  proof
    fix x assume "x \<in> set (map (\<lambda>b. if c b then f b else b) bs)"
    then obtain b where b: "b \<in> set bs" and x: "x = (if c b then f b else b)" by auto
    show "books_checks x"
    proof (cases "c b")
      case True
      with b have "f b \<in> set (map f (filter c bs))" by simp
      with ok have "books_checks (f b)" unfolding list_all_iff by blast
      with x True show ?thesis by simp
    next
      case False
      with b x assms(2) show ?thesis by (simp add: list_all_iff)
    qed
  qed
qed

lemma create_keeps_checks:
  assumes "list_all books_checks (books db)"
  shows "list_all books_checks (books (snd (BorrowingRepository_create db d)))"
proof -
  have ins: "books (snd (insert_borrowing db d)) = books db"
    by (simp add: insert_borrowing_def Let_def)
  show ?thesis
    using assms ins
    by (auto simp: BorrowingRepository_create_def Let_def
        split: option.splits sum.splits prod.splits if_splits dest: update_books_checks)
qed

lemma returnBook_keeps_checks:
  assumes "list_all books_checks (books db)"
  shows "list_all books_checks (books (snd (BorrowingRepository_returnBook db i rd)))"
  using assms
  by (auto simp: BorrowingRepository_returnBook_def Let_def
      split: option.splits sum.splits prod.splits if_splits dest: update_books_checks)

lemma book_create_keeps_checks:
  assumes "list_all books_checks (books db)"
  shows "list_all books_checks (books (snd (BookRepository_create db d)))"
  using assms by (simp add: BookRepository_create_def Let_def)

lemma book_update_keeps_checks:
  assumes "list_all books_checks (books db)"
  shows "list_all books_checks (books (snd (BookRepository_update db i u)))"
  using assms
  by (auto simp: BookRepository_update_def split: sum.splits if_splits dest: update_books_checks)

lemma updateAvailability_keeps_checks:
  assumes "list_all books_checks (books db)"
  shows "list_all books_checks (books (snd (BookRepository_updateAvailability db i q)))"
  using assms
  by (auto simp: BookRepository_updateAvailability_def split: sum.splits dest: update_books_checks)

lemma book_delete_keeps_checks:
  assumes "list_all books_checks (books db)"
  shows "list_all books_checks (books (snd (BookRepository_delete db i)))"
  using assms by (simp add: BookRepository_delete_def list_all_iff)

lemma borrower_delete_keeps_books:
  "books (snd (BorrowerRepository_delete db i)) = books db"
  by (simp add: BorrowerRepository_delete_def)

lemma createBook_state:
  "snd (BookService_createBook db req) = db \<or>
   snd (BookService_createBook db req) = snd (BookRepository_create db (fromCreateRequest req))"
  by (auto simp: BookService_createBook_def Let_def split: option.splits)

lemma updateBook_state:
  "snd (BookService_updateBook db i u) = db \<or>
   snd (BookService_updateBook db i u) = snd (BookRepository_update db i (fromUpdateRequest u))"
  by (auto simp: BookService_updateBook_def Let_def split: option.splits)

lemma updateBookAvailability_state:
  "snd (BookService_updateBookAvailability db i q) = snd (BookRepository_updateAvailability db i q)"
  by (auto simp: BookService_updateBookAvailability_def split: option.splits sum.splits prod.splits)

lemma deleteBook_state:
  "snd (BookService_deleteBook db i) = db \<or>
   snd (BookService_deleteBook db i) = snd (BookRepository_delete db i)"
  by (auto simp: BookService_deleteBook_def split: option.splits prod.splits)

lemma deleteBorrower_state:
  "snd (BorrowerService_deleteBorrower db i) = db \<or>
   snd (BorrowerService_deleteBorrower db i) = snd (BorrowerRepository_delete db i)"
  by (auto simp: BorrowerService_deleteBorrower_def split: option.splits prod.splits)

lemma apply_operation_keeps_checks:
  assumes ok: "list_all books_checks (books db)"
  shows "list_all books_checks (books (apply_operation db op))"
proof (cases op)
  case (Checkout clock req)
  with ok checkoutBook_state [of clock db req] create_keeps_checks [OF ok, of "sanitized_checkout clock req"]
  show ?thesis by auto
next
  case (Return now i)
  with ok returnBook_state [of now db i] returnBook_keeps_checks [OF ok, of i "fromReturnRequest now"]
  show ?thesis by auto
next
  case (ExtendDueDate now i nd reason)
  with ok extend_service_state [of now db i nd reason] show ?thesis by simp
next
  case (CreateBook req)
  with ok createBook_state [of db req] book_create_keeps_checks [OF ok, of "fromCreateRequest req"]
  show ?thesis by auto
next
  case (UpdateBook i u)
  with ok updateBook_state [of db i u] book_update_keeps_checks [OF ok, of i "fromUpdateRequest u"]
  show ?thesis by auto
next
  case (UpdateBookAvailability i q)
  with updateBookAvailability_state [of db i q] updateAvailability_keeps_checks [OF ok, of i q]
  show ?thesis by simp
next
  case (DeleteBook i)
  with ok deleteBook_state [of db i] book_delete_keeps_checks [OF ok, of i]
  show ?thesis by auto
next
  case (DeleteBorrower i)
  with ok deleteBorrower_state [of db i] borrower_delete_keeps_books [of db i]
  show ?thesis by auto
qed

lemma foldl_apply_operation_keeps_checks:
  "list_all books_checks (books db) \<Longrightarrow> list_all books_checks (books (foldl apply_operation db ops))"
proof (induction ops arbitrary: db)
  case Nil
  then show ?case by simp
next
  case (Cons op ops)
  from Cons.IH [OF apply_operation_keeps_checks [OF Cons.prems]] show ?case by simp
qed

lemma updateBook_revalidates:
  assumes "BookRepository_findById db bookId = Some b"
    and "b_total_quantity (merge_book b (fromUpdateRequest upd))
           < b_available_quantity (merge_book b (fromUpdateRequest upd))"
  shows "\<exists>e. BookService_updateBook db bookId upd = (Inl e, db)"
  using assms
  by (auto simp: BookService_updateBook_def Let_def validateQuantities_def split: option.splits)

text \<open>
  C8. From a database whose books satisfy the CHECK constraints, every sequence of
  operations of the services leads to a database in which every book has
  \<open>available_quantity \<le> total_quantity\<close>; and an update of a book whose merged
  data has more available copies than total copies is refused and changes nothing.
\<close>

theorem available_never_exceeds_total:
  assumes "list_all books_checks (books db)"
  shows "(\<forall>b\<in>set (books (foldl apply_operation db ops)).
            b_available_quantity b \<le> b_total_quantity b) \<and>
         (\<forall>b. BookRepository_findById db bookId = Some b \<and>
              b_total_quantity (merge_book b (fromUpdateRequest upd))
                < b_available_quantity (merge_book b (fromUpdateRequest upd)) \<longrightarrow>
              (\<exists>e. BookService_updateBook db bookId upd = (Inl e, db)))"
proof -
  from foldl_apply_operation_keeps_checks [OF assms, of ops]
  have "\<forall>b\<in>set (books (foldl apply_operation db ops)). b_available_quantity b \<le> b_total_quantity b"
    by (simp add: list_all_iff books_checks_def)
  with updateBook_revalidates [of db bookId _ upd] show ?thesis by blast
qed

text \<open>
  The catalogue, the history with the direct edit, and the edit that asks for 5
  available copies of a book with 4.
\<close>

theorem available_never_exceeds_total_witness:
  "list_all books_checks (books catalogue_db) \<and>
   list_all (\<lambda>b. b_available_quantity b \<le> b_total_quantity b)
     (books (foldl apply_operation catalogue_db edited_history)) \<and>
   BookRepository_findById catalogue_db 2 = Some mockingbird \<and>
   b_total_quantity (merge_book mockingbird (fromUpdateRequest overstock))
     < b_available_quantity (merge_book mockingbird (fromUpdateRequest overstock)) \<and>
   (\<exists>e. BookService_updateBook catalogue_db 2 overstock = (Inl e, catalogue_db))"
proof -
  have ok: "list_all books_checks (books catalogue_db)" by code_simp
  have f: "BookRepository_findById catalogue_db 2 = Some mockingbird" by code_simp
  have m: "b_total_quantity (merge_book mockingbird (fromUpdateRequest overstock))
     < b_available_quantity (merge_book mockingbird (fromUpdateRequest overstock))" by code_simp
  from available_never_exceeds_total [OF ok, of edited_history 2 overstock] ok f m
  show ?thesis unfolding list_all_iff by blast
qed

text \<open>
  What \<open>toDetailedBorrowingResponse\<close> computes from the clock, and what the queries
  compute from \<open>CURRENT_DATE\<close>.
\<close>

lemma ceil_div_general:
  fixes n d D :: int
  assumes "0 < D"
  shows "- ((- (n - d * D)) div D) = n div D - d + (if n mod D = 0 then 0 else 1)"
proof -
  have "- (n - d * D) = - n + d * D" by simp
  then have "(- (n - d * D)) div D = d + (- n) div D"
    using assms div_mult_self1 [of D "- n" d] by simp
  moreover have "(- n) div D = (if n mod D = 0 then - (n div D) else - (n div D) - 1)"
    using assms by (simp add: zdiv_zminus1_eq_if)
  ultimately show ?thesis by simp
qed

lemma mult_less_iff_div:
  fixes n d D :: int
  assumes "0 < D"
  shows "d * D < n \<longleftrightarrow> d < n div D \<or> (d = n div D \<and> n mod D \<noteq> 0)"
proof -
  define m where "m = n - d * D"
  have "m = n + (- d) * D" by (simp add: m_def)
  then have dv: "m div D = n div D - d" and md: "m mod D = n mod D"
    using assms div_mult_self1 [of D n "- d"] mod_mult_self1 [of n "- d" D] by simp_all
  have "0 < m \<longleftrightarrow> 0 < m div D \<or> (m div D = 0 \<and> m mod D \<noteq> 0)"
  proof (cases "D \<le> m")
    case True
    with assms pos_imp_zdiv_pos_iff [of D m] show ?thesis by simp
  next
    case False
    show ?thesis
    proof (cases "0 \<le> m")
      case True
      with False have "m div D = 0" "m mod D = m" by simp_all
      with True show ?thesis by auto
    next
      case neg: False
      with assms have "m div D < 0" by (simp add: div_neg_pos_less0)
      with neg show ?thesis by simp
    qed
  qed
  then show ?thesis unfolding dv md by (auto simp: m_def)
qed


lemma dto_days_overdue:
  assumes "br_return_date r = None"
  shows "days_overdue (toDetailedBorrowingResponse now r bk bw) =
           max 0 (iso_date now - br_due_date r + (if now mod ms_per_day = 0 then 0 else 1))"
proof -
  have "Math_ceil_div (now - br_due_date r * 86400000) 86400000 =
          now div 86400000 - br_due_date r + (if now mod 86400000 = 0 then 0 else 1)"
    unfolding Math_ceil_div_def by (rule ceil_div_general) simp
  with assms show ?thesis
    by (simp add: toDetailedBorrowingResponse_def new_Date_def iso_date_def ms_per_day_def)
qed

lemma dto_is_overdue:
  "is_overdue (toDetailedBorrowingResponse now r bk bw) \<longleftrightarrow>
     br_return_date r = None \<and>
     (br_due_date r < iso_date now \<or> (br_due_date r = iso_date now \<and> now mod ms_per_day \<noteq> 0))"
proof -
  have "br_due_date r * 86400000 < now \<longleftrightarrow>
     (br_due_date r < now div 86400000 \<or> (br_due_date r = now div 86400000 \<and> now mod 86400000 \<noteq> 0))"
    by (rule mult_less_iff_div) simp
  then show ?thesis
    by (simp add: toDetailedBorrowingResponse_def new_Date_def iso_date_def ms_per_day_def)
qed

lemma sql_overdue:
  "sql_status current_date r = ''overdue'' \<longleftrightarrow> br_return_date r = None \<and> br_due_date r < current_date"
  "br_return_date r = None \<Longrightarrow> br_due_date r < current_date \<Longrightarrow>
     sql_days_overdue current_date r = current_date - br_due_date r"
  by (simp_all add: sql_status_def sql_days_overdue_def)

text \<open>
  In that history the edit makes the lent copy available again, and the return is
  then rejected by \<open>books_available_lte_total\<close>.
\<close>

lemma return_after_restock_rejected:
  "map b_available_quantity (books (foldl apply_operation catalogue_db (butlast edited_history))) = [5, 3, 1] \<and>
   map b_total_quantity (books (foldl apply_operation catalogue_db (butlast edited_history))) = [5, 4, 1] \<and>
   fst (BorrowingService_returnBook noon (foldl apply_operation catalogue_db (butlast edited_history)) 1) =
     Inl (DbError ''check_violation'')"
  by code_simp

section \<open>Keys and references in every reachable state\<close>

text \<open>
  The primary keys and the foreign keys, which several of the statements above
  assume, hold in every database that the operations of the services reach from one
  where they hold (the empty database, for one).
\<close>

lemma references_ok_iff:
  "references_ok db \<longleftrightarrow>
     (\<forall>r\<in>set (borrowings db). br_book_id r \<in> b_id ` set (books db) \<and>
                                br_borrower_id r \<in> brw_id ` set (borrowers db))"
  by (simp add: references_ok_def list_all_iff)

lemma map_update_ids:
  assumes "\<And>b. f (g b) = f b"
  shows "map f (map (\<lambda>b. if c b then g b else b) bs) = map f bs"
  by (induction bs) (simp_all add: assms)

lemma keys_tables:
  assumes "map b_id (books db') = map b_id (books db)"
    and "map brw_id (borrowers db') = map brw_id (borrowers db)"
    and "map br_id (borrowings db') = map br_id (borrowings db)"
    and "primary_keys_ok db"
  shows "primary_keys_ok db'"
  using assms by (simp add: primary_keys_ok_def)

lemma references_tables:
  assumes bs: "set (map b_id (books db)) \<subseteq> set (map b_id (books db'))"
    and ws: "set (map brw_id (borrowers db)) \<subseteq> set (map brw_id (borrowers db'))"
    and rs: "(\<lambda>r. (br_book_id r, br_borrower_id r)) ` set (borrowings db') \<subseteq>
             (\<lambda>r. (br_book_id r, br_borrower_id r)) ` set (borrowings db)"
    and ok: "references_ok db"
  shows "references_ok db'"
  unfolding references_ok_iff
proof
  fix r assume "r \<in> set (borrowings db')"
  with rs have "(br_book_id r, br_borrower_id r) \<in> (\<lambda>r. (br_book_id r, br_borrower_id r)) ` set (borrowings db)"
    by blast
  then obtain r0 where r0: "r0 \<in> set (borrowings db)" "br_book_id r0 = br_book_id r"
    "br_borrower_id r0 = br_borrower_id r" by auto
  with ok have "br_book_id r \<in> b_id ` set (books db) \<and> br_borrower_id r \<in> brw_id ` set (borrowers db)"
    unfolding references_ok_iff by metis
  with bs ws show "br_book_id r \<in> b_id ` set (books db') \<and> br_borrower_id r \<in> brw_id ` set (borrowers db')"
    by auto
qed

lemma create_keeps_keys:
  assumes pk: "primary_keys_ok db" and fk: "references_ok db"
  shows "primary_keys_ok (snd (BorrowingRepository_create db d)) \<and>
         references_ok (snd (BorrowingRepository_create db d))"
proof -
  obtain res db' where run: "BorrowingRepository_create db d = (res, db')"
    by (cases "BorrowingRepository_create db d")
  have "primary_keys_ok db' \<and> references_ok db'"
  proof (cases res)
    case (Inl e)
    with run create_Inl [of db d e db'] have
      "books db' = books db \<and> borrowers db' = borrowers db \<and> borrowings db' = borrowings db" by simp
    with pk fk show ?thesis by (simp add: primary_keys_ok_def references_ok_def)
  next
    case (Inr row)
    with run have run': "BorrowingRepository_create db d = (Inr row, db')" by simp
    note eq = create_Inr(1) [OF run']
    have bs: "books db' = map (\<lambda>b. if b_id b = cd_book_id d
                                       then b \<lparr> b_available_quantity := b_available_quantity b - 1 \<rparr>
                                       else b) (books db)"
      and rs: "borrowings db' = borrowings db @ [inserted_row db d]"
      and ws: "borrowers db' = borrowers db"
      by (simp_all add: eq)
    have ids: "map b_id (books db') = map b_id (books db)"
      unfolding bs by (rule map_update_ids) simp
    from create_Inr(4) [OF run'] pk ids ws rs have pk': "primary_keys_ok db'"
      by (simp add: primary_keys_ok_def inserted_row_def)
    from create_Inr(5) [OF run'] obtain b where "BookRepository_findById db (cd_book_id d) = Some b" by blast
    from first_row_Some_mem [OF this [unfolded BookRepository_findById_def]]
    have b: "cd_book_id d \<in> b_id ` set (books db)" by force
    from create_Inr(6) [OF run'] obtain w where "BorrowerRepository_findById db (cd_borrower_id d) = Some w" by blast
    from first_row_Some_mem [OF this [unfolded BorrowerRepository_findById_def]]
    have w: "cd_borrower_id d \<in> brw_id ` set (borrowers db)" by force
    have "references_ok db'"
      unfolding references_ok_iff
    proof
      fix r assume "r \<in> set (borrowings db')"
      then consider "r \<in> set (borrowings db)" | "r = inserted_row db d" unfolding rs by auto
      then have "br_book_id r \<in> b_id ` set (books db) \<and> br_borrower_id r \<in> brw_id ` set (borrowers db)"
      proof cases
        case 1
        with fk show ?thesis unfolding references_ok_iff by blast
      next
        case 2
        with b w show ?thesis by (simp add: inserted_row_def)
      qed
      moreover have "b_id ` set (books db') = b_id ` set (books db)"
        using ids by (metis set_map)
      ultimately show "br_book_id r \<in> b_id ` set (books db') \<and> br_borrower_id r \<in> brw_id ` set (borrowers db')"
        by (simp add: ws)
    qed
    with pk' show ?thesis by simp
  qed
  with run show ?thesis by simp
qed

lemma returnBook_keeps_keys:
  assumes pk: "primary_keys_ok db" and fk: "references_ok db"
  shows "primary_keys_ok (snd (BorrowingRepository_returnBook db i rd)) \<and>
         references_ok (snd (BorrowingRepository_returnBook db i rd))"
proof -
  obtain res db' where run: "BorrowingRepository_returnBook db i rd = (res, db')"
    by (cases "BorrowingRepository_returnBook db i rd")
  have "primary_keys_ok db' \<and> references_ok db'"
  proof (cases res)
    case (Inl e)
    with run returnBook_Inl [of db i rd e db'] pk fk show ?thesis by simp
  next
    case (Inr row)
    with run have run': "BorrowingRepository_returnBook db i rd = (Inr row, db')" by simp
    from returnBook_Inr(1) [OF run'] obtain r :: borrowing where
      eq: "db' = db \<lparr> borrowings := map (\<lambda>x. if br_id x = i then x \<lparr> br_return_date := Some rd \<rparr> else x) (borrowings db),
                     books := map (\<lambda>b. if b_id b = br_book_id r
                                        then b \<lparr> b_available_quantity := b_available_quantity b + 1 \<rparr>
                                        else b) (books db) \<rparr>"
      by blast
    have bs: "books db' = map (\<lambda>b. if b_id b = br_book_id r
                                        then b \<lparr> b_available_quantity := b_available_quantity b + 1 \<rparr>
                                        else b) (books db)"
      and rs: "borrowings db' = map (\<lambda>x. if br_id x = i then x \<lparr> br_return_date := Some rd \<rparr> else x) (borrowings db)"
      and ws: "borrowers db' = borrowers db"
      by (simp_all add: eq)
    have ids: "map b_id (books db') = map b_id (books db)"
      unfolding bs by (rule map_update_ids) simp
    have rids: "map br_id (borrowings db') = map br_id (borrowings db)"
      unfolding rs by (rule map_update_ids) simp
    have refs: "map (\<lambda>r. (br_book_id r, br_borrower_id r)) (borrowings db') =
                map (\<lambda>r. (br_book_id r, br_borrower_id r)) (borrowings db)"
      unfolding rs by (rule map_update_ids) simp
    have "primary_keys_ok db'" by (rule keys_tables [OF ids _ rids pk]) (simp add: ws)
    moreover have "references_ok db'"
    proof (rule references_tables [OF _ _ _ fk])
      show "set (map b_id (books db)) \<subseteq> set (map b_id (books db'))" by (simp only: ids)
      show "set (map brw_id (borrowers db)) \<subseteq> set (map brw_id (borrowers db'))" by (simp add: ws)
      from refs have "set (map (\<lambda>r. (br_book_id r, br_borrower_id r)) (borrowings db')) =
                set (map (\<lambda>r. (br_book_id r, br_borrower_id r)) (borrowings db))" by (simp only:)
      then show "(\<lambda>r. (br_book_id r, br_borrower_id r)) ` set (borrowings db') \<subseteq>
             (\<lambda>r. (br_book_id r, br_borrower_id r)) ` set (borrowings db)" by simp
    qed
    ultimately show ?thesis by simp
  qed
  with run show ?thesis by simp
qed

lemma maps_keep_keys:
  assumes pk: "primary_keys_ok db" and fk: "references_ok db"
    and bs: "map b_id (books db') = map b_id (books db)"
    and ws: "borrowers db' = borrowers db"
    and rids: "map br_id (borrowings db') = map br_id (borrowings db)"
    and refs: "map (\<lambda>r. (br_book_id r, br_borrower_id r)) (borrowings db') =
               map (\<lambda>r. (br_book_id r, br_borrower_id r)) (borrowings db)"
  shows "primary_keys_ok db' \<and> references_ok db'"
proof
  show "primary_keys_ok db'" by (rule keys_tables [OF bs _ rids pk]) (simp add: ws)
  show "references_ok db'"
  proof (rule references_tables [OF _ _ _ fk])
    show "set (map b_id (books db)) \<subseteq> set (map b_id (books db'))" by (simp only: bs)
    show "set (map brw_id (borrowers db)) \<subseteq> set (map brw_id (borrowers db'))" by (simp add: ws)
    from refs have "set (map (\<lambda>r. (br_book_id r, br_borrower_id r)) (borrowings db')) =
                set (map (\<lambda>r. (br_book_id r, br_borrower_id r)) (borrowings db))" by (simp only:)
    then show "(\<lambda>r. (br_book_id r, br_borrower_id r)) ` set (borrowings db') \<subseteq>
             (\<lambda>r. (br_book_id r, br_borrower_id r)) ` set (borrowings db)" by simp
  qed
qed

lemma update_books_keeps_keys:
  assumes pk: "primary_keys_ok db" and fk: "references_ok db"
    and upd: "update_books c g (books db) = Inr bs" and g: "\<And>b. b_id (g b) = b_id b"
  shows "primary_keys_ok (db \<lparr> books := bs \<rparr>) \<and> references_ok (db \<lparr> books := bs \<rparr>)"
proof (rule maps_keep_keys [OF pk fk])
  from upd have bs: "bs = map (\<lambda>b. if c b then g b else b) (books db)"
    by (simp add: update_books_def split: if_splits)
  have "map b_id (map (\<lambda>b. if c b then g b else b) (books db)) = map b_id (books db)"
    by (rule map_update_ids) (rule g)
  then show "map b_id (books (db \<lparr> books := bs \<rparr>)) = map b_id (books db)"
    by (simp add: bs)
qed simp_all

lemma book_update_keeps_keys:
  assumes pk: "primary_keys_ok db" and fk: "references_ok db"
  shows "primary_keys_ok (snd (BookRepository_update db i u)) \<and>
         references_ok (snd (BookRepository_update db i u))"
proof (cases "update_books (\<lambda>b. b_id b = i) (\<lambda>b. merge_book b u) (books db)")
  case (Inl e)
  with pk fk show ?thesis by (simp add: BookRepository_update_def)
next
  case (Inr bs)
  have "primary_keys_ok (db \<lparr> books := bs \<rparr>) \<and> references_ok (db \<lparr> books := bs \<rparr>)"
    by (rule update_books_keeps_keys [OF pk fk Inr]) (simp add: merge_book_def)
  with Inr pk fk show ?thesis by (simp add: BookRepository_update_def)
qed

lemma updateAvailability_keeps_keys:
  assumes pk: "primary_keys_ok db" and fk: "references_ok db"
  shows "primary_keys_ok (snd (BookRepository_updateAvailability db i q)) \<and>
         references_ok (snd (BookRepository_updateAvailability db i q))"
proof (cases "update_books (\<lambda>b. b_id b = i \<and> b_available_quantity b + q \<ge> 0)
             (\<lambda>b. b \<lparr> b_available_quantity := b_available_quantity b + q \<rparr>) (books db)")
  case (Inl e)
  with pk fk show ?thesis by (simp add: BookRepository_updateAvailability_def)
next
  case (Inr bs)
  have "primary_keys_ok (db \<lparr> books := bs \<rparr>) \<and> references_ok (db \<lparr> books := bs \<rparr>)"
    by (rule update_books_keeps_keys [OF pk fk Inr]) simp
  with Inr show ?thesis by (simp add: BookRepository_updateAvailability_def)
qed

lemma book_create_keeps_keys:
  assumes pk: "primary_keys_ok db" and fk: "references_ok db"
  shows "primary_keys_ok (snd (BookRepository_create db d)) \<and>
         references_ok (snd (BookRepository_create db d))"
  using pk fk
  by (auto simp: BookRepository_create_def Let_def primary_keys_ok_def references_ok_iff)

lemma book_delete_keeps_keys:
  assumes pk: "primary_keys_ok db" and fk: "references_ok db"
  shows "primary_keys_ok (snd (BookRepository_delete db i)) \<and>
         references_ok (snd (BookRepository_delete db i))"
proof
  from pk show "primary_keys_ok (snd (BookRepository_delete db i))"
    by (simp add: BookRepository_delete_def primary_keys_ok_def distinct_map_filter)
  show "references_ok (snd (BookRepository_delete db i))"
    unfolding references_ok_iff
  proof
    fix r assume "r \<in> set (borrowings (snd (BookRepository_delete db i)))"
    then have r: "r \<in> set (borrowings db)" "br_book_id r \<noteq> i"
      by (simp_all add: BookRepository_delete_def)
    with fk obtain b where "b \<in> set (books db)" "b_id b = br_book_id r"
      and w: "br_borrower_id r \<in> brw_id ` set (borrowers db)"
      unfolding references_ok_iff by auto
    with r(2) have "b \<in> set (books (snd (BookRepository_delete db i)))"
      by (simp add: BookRepository_delete_def)
    with \<open>b_id b = br_book_id r\<close> have "br_book_id r \<in> b_id ` set (books (snd (BookRepository_delete db i)))"
      by force
    with w show "br_book_id r \<in> b_id ` set (books (snd (BookRepository_delete db i))) \<and>
       br_borrower_id r \<in> brw_id ` set (borrowers (snd (BookRepository_delete db i)))"
      by (simp add: BookRepository_delete_def)
  qed
qed

lemma borrower_delete_keeps_keys:
  assumes pk: "primary_keys_ok db" and fk: "references_ok db"
  shows "primary_keys_ok (snd (BorrowerRepository_delete db i)) \<and>
         references_ok (snd (BorrowerRepository_delete db i))"
proof
  from pk show "primary_keys_ok (snd (BorrowerRepository_delete db i))"
    by (simp add: BorrowerRepository_delete_def primary_keys_ok_def distinct_map_filter)
  show "references_ok (snd (BorrowerRepository_delete db i))"
    unfolding references_ok_iff
  proof
    fix r assume "r \<in> set (borrowings (snd (BorrowerRepository_delete db i)))"
    then have r: "r \<in> set (borrowings db)" "br_borrower_id r \<noteq> i"
      by (simp_all add: BorrowerRepository_delete_def)
    with fk obtain w where "w \<in> set (borrowers db)" "brw_id w = br_borrower_id r"
      and b: "br_book_id r \<in> b_id ` set (books db)"
      unfolding references_ok_iff by auto
    with r(2) have "w \<in> set (borrowers (snd (BorrowerRepository_delete db i)))"
      by (simp add: BorrowerRepository_delete_def)
    with \<open>brw_id w = br_borrower_id r\<close>
    have "br_borrower_id r \<in> brw_id ` set (borrowers (snd (BorrowerRepository_delete db i)))"
      by force
    with b show "br_book_id r \<in> b_id ` set (books (snd (BorrowerRepository_delete db i))) \<and>
       br_borrower_id r \<in> brw_id ` set (borrowers (snd (BorrowerRepository_delete db i)))"
      by (simp add: BorrowerRepository_delete_def)
  qed
qed

lemma apply_operation_keeps_keys:
  assumes pk: "primary_keys_ok db" and fk: "references_ok db"
  shows "primary_keys_ok (apply_operation db op) \<and> references_ok (apply_operation db op)"
proof (cases op)
  case (Checkout clock req)
  with pk fk checkoutBook_state [of clock db req]
    create_keeps_keys [OF pk fk, of "sanitized_checkout clock req"]
  show ?thesis by auto
next
  case (Return now i)
  with pk fk returnBook_state [of now db i]
    returnBook_keeps_keys [OF pk fk, of i "fromReturnRequest now"]
  show ?thesis by auto
next
  case (ExtendDueDate now i nd reason)
  with pk fk extend_service_state [of now db i nd reason] show ?thesis by simp
next
  case (CreateBook req)
  with pk fk createBook_state [of db req] book_create_keeps_keys [OF pk fk, of "fromCreateRequest req"]
  show ?thesis by auto
next
  case (UpdateBook i u)
  with pk fk updateBook_state [of db i u] book_update_keeps_keys [OF pk fk, of i "fromUpdateRequest u"]
  show ?thesis by auto
next
  case (UpdateBookAvailability i q)
  with updateBookAvailability_state [of db i q] updateAvailability_keeps_keys [OF pk fk, of i q]
  show ?thesis by simp
next
  case (DeleteBook i)
  with pk fk deleteBook_state [of db i] book_delete_keeps_keys [OF pk fk, of i]
  show ?thesis by auto
next
  case (DeleteBorrower i)
  with pk fk deleteBorrower_state [of db i] borrower_delete_keeps_keys [OF pk fk, of i]
  show ?thesis by auto
qed

lemma reachable_keys:
  "primary_keys_ok db \<Longrightarrow> references_ok db \<Longrightarrow>
   primary_keys_ok (foldl apply_operation db ops) \<and> references_ok (foldl apply_operation db ops)"
proof (induction ops arbitrary: db)
  case Nil
  then show ?case by simp
next
  case (Cons op ops)
  from apply_operation_keeps_keys [OF Cons.prems, of op]
  have "primary_keys_ok (apply_operation db op)" "references_ok (apply_operation db op)" by simp_all
  from Cons.IH [OF this] show ?case by simp
qed

section \<open>A borrowing is returned at most once\<close>

lemma closed_id_iff:
  "closed_id i db \<longleftrightarrow>
     i < borrowings_id_seq db \<and> (\<forall>r\<in>set (borrowings db). br_id r = i \<longrightarrow> br_return_date r \<noteq> None)"
  by (auto simp: closed_id_def list_all_iff)

lemma closed_id_refused:
  assumes "closed_id i db"
  shows "isl (fst (BorrowingService_returnBook now db i)) \<and>
         snd (BorrowingService_returnBook now db i) = db"
proof (cases "details_by_id db i = []")
  case True
  then show ?thesis
    by (simp add: BorrowingService_returnBook_def Let_def BorrowingRepository_findById_def first_row_def)
next
  case False
  have "\<forall>x\<in>set (details_by_id db i). br_return_date x \<noteq> None"
  proof
    fix x assume "x \<in> set (details_by_id db i)"
    then obtain r b w where "x = join_details r b w" "r \<in> set (borrowings db)" "br_id r = i"
      unfolding details_by_id_def set_details_where by blast
    with assms show "br_return_date x \<noteq> None" by (simp add: closed_id_iff)
  qed
  from returned_row_refused [OF False this, of now] show ?thesis by simp
qed

lemma closed_id_tables:
  assumes c: "closed_id i db"
    and seq: "borrowings_id_seq db \<le> borrowings_id_seq db'"
    and rows: "\<forall>r'\<in>set (borrowings db'). br_id r' = i \<longrightarrow>
                 (\<exists>r\<in>set (borrowings db). br_id r = i \<and> br_return_date r' = br_return_date r)"
  shows "closed_id i db'"
  unfolding closed_id_iff
proof (intro conjI ballI impI)
  from c seq show "i < borrowings_id_seq db'" by (simp add: closed_id_iff)
  fix r' assume "r' \<in> set (borrowings db')" "br_id r' = i"
  with rows obtain r where "r \<in> set (borrowings db)" "br_id r = i" "br_return_date r' = br_return_date r"
    by blast
  with c show "br_return_date r' \<noteq> None" by (simp add: closed_id_iff)
qed

lemma create_keeps_closed:
  assumes c: "closed_id i db"
  shows "closed_id i (snd (BorrowingRepository_create db d))"
proof -
  obtain res db' where run: "BorrowingRepository_create db d = (res, db')"
    by (cases "BorrowingRepository_create db d")
  have "closed_id i db'"
  proof (cases res)
    case (Inl e)
    with run create_Inl [of db d e db'] have rs: "borrowings db' = borrowings db" by simp
    from run Inl have "borrowings_id_seq db \<le> borrowings_id_seq db'"
      by (auto simp: BorrowingRepository_create_def insert_borrowing_def Let_def update_books_def
          split: option.splits if_splits)
    with c rs show ?thesis by (simp add: closed_id_iff)
  next
    case (Inr row)
    with run have run': "BorrowingRepository_create db d = (Inr row, db')" by simp
    note eq = create_Inr(1) [OF run']
    have rs: "borrowings db' = borrowings db @ [inserted_row db d]"
      and seq: "borrowings_id_seq db' = borrowings_id_seq db + 1"
      by (simp_all add: eq)
    from c have "br_id (inserted_row db d) \<noteq> i" by (simp add: closed_id_iff inserted_row_def)
    with c rs seq show ?thesis by (auto simp: closed_id_iff)
  qed
  with run show ?thesis by simp
qed

lemma returnBook_keeps_closed:
  assumes c: "closed_id i db"
  shows "closed_id i (snd (BorrowingRepository_returnBook db j rd))"
proof -
  obtain res db' where run: "BorrowingRepository_returnBook db j rd = (res, db')"
    by (cases "BorrowingRepository_returnBook db j rd")
  have "closed_id i db'"
  proof (cases res)
    case (Inl e)
    with run returnBook_Inl [of db j rd e db'] c show ?thesis by simp
  next
    case (Inr row)
    with run have run': "BorrowingRepository_returnBook db j rd = (Inr row, db')" by simp
    from returnBook_Inr(1) [OF run'] obtain r :: borrowing where
      eq: "db' = db \<lparr> borrowings := map (\<lambda>x. if br_id x = j then x \<lparr> br_return_date := Some rd \<rparr> else x) (borrowings db),
                     books := map (\<lambda>b. if b_id b = br_book_id r
                                        then b \<lparr> b_available_quantity := b_available_quantity b + 1 \<rparr>
                                        else b) (books db) \<rparr>"
      by blast
    have rs: "borrowings db' = map (\<lambda>x. if br_id x = j then x \<lparr> br_return_date := Some rd \<rparr> else x) (borrowings db)"
      and seq: "borrowings_id_seq db' = borrowings_id_seq db"
      by (simp_all add: eq)
    show ?thesis
      unfolding closed_id_iff
    proof (intro conjI ballI impI)
      from c seq show "i < borrowings_id_seq db'" by (simp add: closed_id_iff)
      fix r' assume "r' \<in> set (borrowings db')" "br_id r' = i"
      then obtain r0 where r0: "r0 \<in> set (borrowings db)"
        and r': "r' = (if br_id r0 = j then r0 \<lparr> br_return_date := Some rd \<rparr> else r0)"
        unfolding rs by auto
      show "br_return_date r' \<noteq> None"
      proof (cases "br_id r0 = j")
        case True
        with r' show ?thesis by simp
      next
        case False
        with r' \<open>br_id r' = i\<close> r0 c show ?thesis by (simp add: closed_id_iff)
      qed
    qed
  qed
  with run show ?thesis by simp
qed

lemma apply_operation_keeps_closed:
  assumes c: "closed_id i db"
  shows "closed_id i (apply_operation db op)"
proof (cases op)
  case (Checkout clock req)
  with c checkoutBook_state [of clock db req] create_keeps_closed [OF c, of "sanitized_checkout clock req"]
  show ?thesis by auto
next
  case (Return now j)
  with c returnBook_state [of now db j] returnBook_keeps_closed [OF c, of j "fromReturnRequest now"]
  show ?thesis by auto
next
  case (ExtendDueDate now j nd reason)
  with c extend_service_state [of now db j nd reason] show ?thesis by simp
next
  case (CreateBook req)
  have "borrowings (snd (BookRepository_create db (fromCreateRequest req))) = borrowings db"
    "borrowings_id_seq (snd (BookRepository_create db (fromCreateRequest req))) = borrowings_id_seq db"
    by (simp_all add: BookRepository_create_def Let_def)
  with c have "closed_id i (snd (BookRepository_create db (fromCreateRequest req)))"
    by (simp add: closed_id_iff)
  with c CreateBook createBook_state [of db req] show ?thesis by auto
next
  case (UpdateBook j u)
  have "borrowings (snd (BookRepository_update db j (fromUpdateRequest u))) = borrowings db"
    "borrowings_id_seq (snd (BookRepository_update db j (fromUpdateRequest u))) = borrowings_id_seq db"
    by (simp_all add: BookRepository_update_def split: sum.splits)
  with c have "closed_id i (snd (BookRepository_update db j (fromUpdateRequest u)))"
    by (simp add: closed_id_iff)
  with c UpdateBook updateBook_state [of db j u] show ?thesis by auto
next
  case (UpdateBookAvailability j q)
  have "borrowings (snd (BookRepository_updateAvailability db j q)) = borrowings db"
    "borrowings_id_seq (snd (BookRepository_updateAvailability db j q)) = borrowings_id_seq db"
    by (simp_all add: BookRepository_updateAvailability_def split: sum.splits)
  with c have "closed_id i (snd (BookRepository_updateAvailability db j q))"
    by (simp add: closed_id_iff)
  with UpdateBookAvailability updateBookAvailability_state [of db j q] show ?thesis by simp
next
  case (DeleteBook j)
  from c have "closed_id i (snd (BookRepository_delete db j))"
    by (simp add: closed_id_iff BookRepository_delete_def)
  with c DeleteBook deleteBook_state [of db j] show ?thesis by auto
next
  case (DeleteBorrower j)
  from c have "closed_id i (snd (BorrowerRepository_delete db j))"
    by (simp add: closed_id_iff BorrowerRepository_delete_def)
  with c DeleteBorrower deleteBorrower_state [of db j] show ?thesis by auto
qed

lemma closed_id_forever:
  "closed_id i db \<Longrightarrow> closed_id i (foldl apply_operation db ops)"
proof (induction ops arbitrary: db)
  case Nil
  then show ?case by simp
next
  case (Cons op ops)
  from Cons.IH [OF apply_operation_keeps_closed [OF Cons.prems]] show ?case by simp
qed

lemma return_closes_id:
  assumes seq: "list_all (\<lambda>r. br_id r < borrowings_id_seq db) (borrowings db)"
    and run: "BorrowingService_returnBook now db i = (Inr resp, db')"
  shows "closed_id i db'"
proof -
  from returnBook_service_Inr [OF run] obtain row where
    rr: "BorrowingRepository_returnBook db i (iso_date now) = (Inr (Some row), db')" by blast
  from returnBook_Inr(1) [OF rr] obtain r :: borrowing where
    r: "first_row (filter (\<lambda>r. br_id r = i \<and> br_return_date r = None) (borrowings db)) = Some r"
    and eq: "db' = db \<lparr> borrowings := map (\<lambda>x. if br_id x = i then x \<lparr> br_return_date := Some (iso_date now) \<rparr> else x) (borrowings db),
                     books := map (\<lambda>b. if b_id b = br_book_id r
                                        then b \<lparr> b_available_quantity := b_available_quantity b + 1 \<rparr>
                                        else b) (books db) \<rparr>"
    by blast
  have rs: "borrowings db' = map (\<lambda>x. if br_id x = i then x \<lparr> br_return_date := Some (iso_date now) \<rparr> else x) (borrowings db)"
    and sq: "borrowings_id_seq db' = borrowings_id_seq db"
    by (simp_all add: eq)
  from first_row_Some_mem [OF r] have "r \<in> set (borrowings db)" "br_id r = i" by simp_all
  with seq have "i < borrowings_id_seq db" unfolding list_all_iff by blast
  with sq have "i < borrowings_id_seq db'" by simp
  moreover have "\<forall>r'\<in>set (borrowings db'). br_id r' = i \<longrightarrow> br_return_date r' \<noteq> None"
  proof (intro ballI impI)
    fix r' assume "r' \<in> set (borrowings db')" "br_id r' = i"
    then have "r' \<in> (\<lambda>x. if br_id x = i then x \<lparr> br_return_date := Some (iso_date now) \<rparr> else x) ` set (borrowings db)"
      unfolding rs by simp
    then obtain r0 where "r' = (if br_id r0 = i then r0 \<lparr> br_return_date := Some (iso_date now) \<rparr> else r0)"
      by blast
    with \<open>br_id r' = i\<close> show "br_return_date r' \<noteq> None" by (cases "br_id r0 = i") simp_all
  qed
  ultimately show ?thesis by (simp add: closed_id_iff)
qed


text \<open>
  C4. A return of an id that no borrowing has fails with \<open>Borrowing not found\<close>;
  a return of a borrowing whose \<open>return_date\<close> is set fails with
  \<open>Book has already been returned\<close>; a return that fails leaves the database as it
  was; after a return has succeeded, a second return of the same id fails with
  \<open>Book has already been returned\<close>; and it keeps failing, and changing nothing,
  after any further operations of the services (the ids of the borrowings being
  behind their sequence), so a borrowing is returned at most once.
\<close>

theorem return_failures:
  "((\<forall>r\<in>set (borrowings db). br_id r \<noteq> i) \<longrightarrow>
      BorrowingService_returnBook now db i = (Inl (Error ''Borrowing not found''), db)) \<and>
   (\<forall>r. primary_keys_ok db \<and> references_ok db \<and>
        r \<in> set (borrowings db) \<and> br_id r = i \<and> br_return_date r \<noteq> None \<longrightarrow>
      BorrowingService_returnBook now db i = (Inl (Error ''Book has already been returned''), db)) \<and>
   (\<forall>e db'. BorrowingService_returnBook now db i = (Inl e, db') \<longrightarrow> db' = db) \<and>
   (\<forall>resp db' now'. BorrowingService_returnBook now db i = (Inr resp, db') \<longrightarrow>
      BorrowingService_returnBook now' db' i = (Inl (Error ''Book has already been returned''), db')) \<and>
   (\<forall>resp db' ops now'.
      list_all (\<lambda>r. br_id r < borrowings_id_seq db) (borrowings db) \<and>
      BorrowingService_returnBook now db i = (Inr resp, db') \<longrightarrow>
      isl (fst (BorrowingService_returnBook now' (foldl apply_operation db' ops) i)) \<and>
      snd (BorrowingService_returnBook now' (foldl apply_operation db' ops) i) =
        foldl apply_operation db' ops)"
proof -
  have later: "isl (fst (BorrowingService_returnBook now' (foldl apply_operation db' ops) i)) \<and>
      snd (BorrowingService_returnBook now' (foldl apply_operation db' ops) i) =
        foldl apply_operation db' ops"
    if "list_all (\<lambda>r. br_id r < borrowings_id_seq db) (borrowings db)"
      and "BorrowingService_returnBook now db i = (Inr resp, db')" for resp db' ops now'
    by (rule closed_id_refused, rule closed_id_forever, rule return_closes_id [OF that])
  show ?thesis
    using return_not_found [of db i now] return_already_returned [of db _ i now]
      returnBook_service_Inl [of now db i] return_twice [of now db i] later
    by blast
qed

text \<open>
  On the database with one loan: id 5 is not found, id 1 is returned, and a second
  return of id 1 is refused, at once and after the borrower has checked the book out
  again.
\<close>

theorem return_failures_witness:
  "5 \<notin> set (map br_id (borrowings loan_db)) \<and>
   BorrowingService_returnBook noon loan_db 5 = (Inl (Error ''Borrowing not found''), loan_db) \<and>
   BorrowingService_returnBook noon loan_db 1 =
     (Inr (enriched noon (join_details (loan \<lparr> br_return_date := Some 19732 \<rparr>) gatsby john)), returned_db) \<and>
   primary_keys_ok returned_db \<and> references_ok returned_db \<and>
   BorrowingService_returnBook (noon + 1) returned_db 1 =
     (Inl (Error ''Book has already been returned''), returned_db) \<and>
   list_all (\<lambda>r. br_id r < borrowings_id_seq loan_db) (borrowings loan_db) \<and>
   isl (fst (BorrowingService_returnBook (noon + 1)
     (foldl apply_operation returned_db [Checkout (clock_at noon) \<lparr>book_id = 1, borrower_id = 1, due_date = None\<rparr>]) 1))"
proof -
  have none: "\<forall>r\<in>set (borrowings loan_db). br_id r \<noteq> 5"
    by (simp add: loan_db_def loan_def)
  have run: "BorrowingService_returnBook noon loan_db 1 =
     (Inr (enriched noon (join_details (loan \<lparr> br_return_date := Some 19732 \<rparr>) gatsby john)), returned_db)"
    by code_simp
  have pk: "primary_keys_ok returned_db" by code_simp
  have fk: "references_ok returned_db" by code_simp
  have sq: "list_all (\<lambda>r. br_id r < borrowings_id_seq loan_db) (borrowings loan_db)" by code_simp
  from return_failures [of loan_db 5 noon] none
  have a: "BorrowingService_returnBook noon loan_db 5 = (Inl (Error ''Borrowing not found''), loan_db)"
    by blast
  from return_failures [of loan_db 1 noon] run
  have b: "BorrowingService_returnBook (noon + 1) returned_db 1 =
     (Inl (Error ''Book has already been returned''), returned_db)"
    by blast
  have "loan \<lparr> br_return_date := Some 19732 \<rparr> \<in> set (borrowings returned_db)"
    "br_id (loan \<lparr> br_return_date := Some 19732 \<rparr>) = 1"
    "br_return_date (loan \<lparr> br_return_date := Some 19732 \<rparr>) \<noteq> None"
    by (simp_all add: returned_db_def loan_def)
  with return_failures [of returned_db 1 "noon + 1"] pk fk
  have "BorrowingService_returnBook (noon + 1) returned_db 1 =
     (Inl (Error ''Book has already been returned''), returned_db)"
    by blast
  moreover have "5 \<notin> set (map br_id (borrowings loan_db))"
    by (simp add: loan_db_def loan_def)
  moreover from return_failures [of loan_db 1 noon] run sq
  have "isl (fst (BorrowingService_returnBook (noon + 1)
     (foldl apply_operation returned_db [Checkout (clock_at noon) \<lparr>book_id = 1, borrower_id = 1, due_date = None\<rparr>]) 1))"
    by blast
  ultimately show ?thesis using a run pk fk sq by blast
qed

end
